theory Spec2Isabelle
  imports Complex_Main
begin

section \<open>Exceptions\<close>

text \<open>
  Every exception that \<^verbatim>\<open>linky_month.py\<close> or the library code it calls can raise is a
  value; a computation that may raise returns \<open>error + 'a\<close>, with \<open>Inl\<close> for the
  exception.
\<close>

datatype error =
    KeyError string
  | IndexError
  | ValueError
  | OverflowError
  | IllegalMonthError
  | OSError
  | LinkyLoginException
  | RequestError

section \<open>The proleptic Gregorian calendar of \<^verbatim>\<open>datetime\<close>\<close>

text \<open>
  The helpers of the standard library's \<^verbatim>\<open>datetime.py\<close>: \<^verbatim>\<open>_is_leap\<close>,
  \<^verbatim>\<open>_days_before_year\<close>, \<^verbatim>\<open>_days_in_month\<close>, \<^verbatim>\<open>_days_before_month\<close>, \<^verbatim>\<open>_ymd2ord\<close>
  and \<^verbatim>\<open>_ord2ymd\<close>. Python's \<^verbatim>\<open>//\<close> and \<^verbatim>\<open>%\<close> round towards minus infinity, as
  \<open>div\<close> and \<open>mod\<close> on \<open>int\<close> do. The two tables are indexed from 1; index 0 holds
  the placeholder \<open>-1\<close> as in the source.
\<close>

definition MINYEAR :: int where "MINYEAR = 1"
definition MAXYEAR :: int where "MAXYEAR = 9999"
definition MAXORDINAL :: int where "MAXORDINAL = 3652059"

definition DAYS_IN_MONTH :: "int list" where
  "DAYS_IN_MONTH = [-1, 31, 28, 31, 30, 31, 30, 31, 31, 30, 31, 30, 31]"

definition DAYS_BEFORE_MONTH :: "int list" where
  "DAYS_BEFORE_MONTH = [-1, 0, 31, 59, 90, 120, 151, 181, 212, 243, 273, 304, 334]"

definition is_leap :: "int \<Rightarrow> bool" where
  "is_leap year \<longleftrightarrow> year mod 4 = 0 \<and> (year mod 100 \<noteq> 0 \<or> year mod 400 = 0)"

definition days_before_year :: "int \<Rightarrow> int" where
  "days_before_year year =
     (let y = year - 1 in y * 365 + y div 4 - y div 100 + y div 400)"

definition days_in_month :: "int \<Rightarrow> int \<Rightarrow> int" where
  "days_in_month year month =
     (if month = 2 \<and> is_leap year then 29 else DAYS_IN_MONTH ! nat month)"

definition days_before_month :: "int \<Rightarrow> int \<Rightarrow> int" where
  "days_before_month year month =
     DAYS_BEFORE_MONTH ! nat month + (if month > 2 \<and> is_leap year then 1 else 0)"

definition ymd2ord :: "int \<Rightarrow> int \<Rightarrow> int \<Rightarrow> int" where
  "ymd2ord year month day =
     days_before_year year + days_before_month year month + day"

definition DI400Y :: int where "DI400Y = 146097"
definition DI100Y :: int where "DI100Y = 36524"
definition DI4Y :: int where "DI4Y = 1461"

definition ord2ymd :: "int \<Rightarrow> int \<times> int \<times> int" where
  "ord2ymd n0 =
     (let n = n0 - 1;
          n400 = n div DI400Y; n = n mod DI400Y;
          year = n400 * 400 + 1;
          n100 = n div DI100Y; n = n mod DI100Y;
          n4 = n div DI4Y; n = n mod DI4Y;
          n1 = n div 365; n = n mod 365;
          year = year + (n100 * 100 + n4 * 4 + n1)
      in if n1 = 4 \<or> n100 = 4 then (year - 1, 12, 31)
         else
           let leapyear = (n1 = 3 \<and> (n4 \<noteq> 24 \<or> n100 = 3));
               month = (n + 50) div 32;
               preceding = DAYS_BEFORE_MONTH ! nat month
                             + (if month > 2 \<and> leapyear then 1 else 0);
               month' = (if preceding > n then month - 1 else month);
               preceding' = (if preceding > n
                             then preceding - (DAYS_IN_MONTH ! nat month'
                                               + (if month' = 2 \<and> leapyear then 1 else 0))
                             else preceding)
           in (year, month', n - preceding' + 1))"

section \<open>\<^verbatim>\<open>date\<close> and \<^verbatim>\<open>datetime\<close> objects\<close>

text \<open>
  A \<^verbatim>\<open>datetime.date\<close> carries year, month and day; a \<^verbatim>\<open>datetime.datetime\<close> carries
  hour, minute, second and microsecond as well (the program never attaches a time zone).
  \<open>check_date_fields\<close> is the validation every constructor runs.
\<close>

datatype pydate =
    Date int int int
  | DateTime int int int int int int int

fun year_of :: "pydate \<Rightarrow> int" where
  "year_of (Date y m d) = y"
| "year_of (DateTime y m d hh mm ss us) = y"

fun month_of :: "pydate \<Rightarrow> int" where
  "month_of (Date y m d) = m"
| "month_of (DateTime y m d hh mm ss us) = m"

fun day_of :: "pydate \<Rightarrow> int" where
  "day_of (Date y m d) = d"
| "day_of (DateTime y m d hh mm ss us) = d"

fun hour_of :: "pydate \<Rightarrow> int" where
  "hour_of (Date y m d) = 0"
| "hour_of (DateTime y m d hh mm ss us) = hh"

fun minute_of :: "pydate \<Rightarrow> int" where
  "minute_of (Date y m d) = 0"
| "minute_of (DateTime y m d hh mm ss us) = mm"

definition check_date_fields :: "int \<Rightarrow> int \<Rightarrow> int \<Rightarrow> bool" where
  "check_date_fields year month day \<longleftrightarrow>
     MINYEAR \<le> year \<and> year \<le> MAXYEAR \<and> 1 \<le> month \<and> month \<le> 12
     \<and> 1 \<le> day \<and> day \<le> days_in_month year month"

fun valid_pydate :: "pydate \<Rightarrow> bool" where
  "valid_pydate (Date y m d) = check_date_fields y m d"
| "valid_pydate (DateTime y m d hh mm ss us) =
     (check_date_fields y m d \<and> 0 \<le> hh \<and> hh < 24 \<and> 0 \<le> mm \<and> mm < 60
      \<and> 0 \<le> ss \<and> ss < 60 \<and> 0 \<le> us \<and> us < 1000000)"

fun toordinal :: "pydate \<Rightarrow> int" where
  "toordinal dt = ymd2ord (year_of dt) (month_of dt) (day_of dt)"

definition fromordinal :: "int \<Rightarrow> pydate" where
  "fromordinal n = (case ord2ymd n of (y, m, d) \<Rightarrow> Date y m d)"

text \<open>\<^verbatim>\<open>replace(year=..., month=..., day=...)\<close>: a new object of the same class, validated.\<close>

fun replace_ymd :: "pydate \<Rightarrow> int \<Rightarrow> int \<Rightarrow> int \<Rightarrow> error + pydate" where
  "replace_ymd (Date y0 m0 d0) y m d =
     (if check_date_fields y m d then Inr (Date y m d) else Inl ValueError)"
| "replace_ymd (DateTime y0 m0 d0 hh mm ss us) y m d =
     (if check_date_fields y m d then Inr (DateTime y m d hh mm ss us) else Inl ValueError)"

section \<open>\<^verbatim>\<open>timedelta\<close>\<close>

text \<open>
  A \<^verbatim>\<open>timedelta\<close> is normalised to days, seconds in \<open>[0, 86400)\<close> and microseconds in
  \<open>[0, 1000000)\<close>; the constructor raises \<^verbatim>\<open>OverflowError\<close> beyond 999999999 days.

  Numbers that Python holds as \<^verbatim>\<open>float\<close> are modelled by the rational they denote. The
  program only forms \<^verbatim>\<open>k * 0.5\<close> and \<^verbatim>\<open>k * 1\<close> for integers \<open>k\<close>; such values and
  the seconds derived from them are represented exactly in binary64 as long as they stay
  below \<open>2^53\<close>, and everything larger is rejected by the 999999999-day bound in the
  model and in Python alike. \<open>py_round\<close> is \<^verbatim>\<open>round\<close> (half to even), which the
  constructor applies to fractional microseconds.
\<close>

definition py_round :: "rat \<Rightarrow> int" where
  "py_round r =
     (let f = \<lfloor>r\<rfloor>; d = r - of_int f
      in if d < 1 / 2 then f else if d > 1 / 2 then f + 1
         else if even f then f else f + 1)"

record timedelta =
  td_days :: int
  td_seconds :: int
  td_microseconds :: int

definition normalize_timedelta :: "int \<Rightarrow> int \<Rightarrow> int \<Rightarrow> error + timedelta" where
  "normalize_timedelta d s us =
     (let s = s + us div 1000000; us = us mod 1000000;
          d = d + s div 86400; s = s mod 86400
      in if \<bar>d\<bar> > 999999999 then Inl OverflowError
         else Inr \<lparr>td_days = d, td_seconds = s, td_microseconds = us\<rparr>)"

text \<open>\<^verbatim>\<open>timedelta(days=days, hours=hours)\<close>, the only form the program reaches.\<close>

definition timedelta_of :: "rat \<Rightarrow> rat \<Rightarrow> error + timedelta" where
  "timedelta_of days hours =
     normalize_timedelta 0 0 (py_round (days * 86400000000 + hours * 3600000000))"

text \<open>
  \<^verbatim>\<open>date.__add__\<close> uses only the days of the \<^verbatim>\<open>timedelta\<close>; \<^verbatim>\<open>datetime.__add__\<close>
  adds the whole of it to the time elapsed since ordinal 0.
\<close>

fun add_timedelta :: "pydate \<Rightarrow> timedelta \<Rightarrow> error + pydate" where
  "add_timedelta (Date y m d) td =
     (let o' = toordinal (Date y m d) + td_days td
      in if 0 < o' \<and> o' \<le> MAXORDINAL then Inr (fromordinal o') else Inl OverflowError)"
| "add_timedelta (DateTime y m d hh mm ss us) td =
     (case normalize_timedelta (toordinal (DateTime y m d hh mm ss us) + td_days td)
             (hh * 3600 + mm * 60 + ss + td_seconds td) (us + td_microseconds td) of
        Inl e \<Rightarrow> Inl e
      | Inr delta \<Rightarrow>
          (let hour = td_seconds delta div 3600; rem = td_seconds delta mod 3600;
               minute = rem div 60; second = rem mod 60
           in if 0 < td_days delta \<and> td_days delta \<le> MAXORDINAL
              then (case ord2ymd (td_days delta) of
                      (y', m', d') \<Rightarrow>
                        Inr (DateTime y' m' d' hour minute second (td_microseconds delta)))
              else Inl OverflowError))"

section \<open>\<^verbatim>\<open>calendar.monthrange\<close>\<close>

text \<open>
  Only the second component (the number of days of the month) is used by the callers.
  The first component never raises: \<^verbatim>\<open>calendar.weekday\<close> folds a year outside
  \<open>1..9999\<close> into the 400-year cycle before it builds a date.
\<close>

definition mdays :: "int list" where
  "mdays = [0, 31, 28, 31, 30, 31, 30, 31, 31, 30, 31, 30, 31]"

definition isleap :: "int \<Rightarrow> bool" where
  "isleap year \<longleftrightarrow> year mod 4 = 0 \<and> (year mod 100 \<noteq> 0 \<or> year mod 400 = 0)"

definition monthrange :: "int \<Rightarrow> int \<Rightarrow> error + int" where
  "monthrange year month =
     (if \<not> (1 \<le> month \<and> month \<le> 12) then Inl IllegalMonthError
      else Inr (mdays ! nat month + (if month = 2 \<and> isleap year then 1 else 0)))"

section \<open>\<^verbatim>\<open>dateutil.relativedelta\<close>\<close>

text \<open>
  The relative fields that the program sets: \<^verbatim>\<open>years\<close>, \<^verbatim>\<open>months\<close>, \<^verbatim>\<open>days\<close> and
  \<^verbatim>\<open>hours\<close>. The remaining relative fields keep their default 0 and the absolute fields
  and the weekday their default \<^verbatim>\<open>None\<close>, so the branches of the library that read them
  do nothing. \<^verbatim>\<open>_has_time\<close> is then set exactly when \<^verbatim>\<open>hours\<close> is not zero.
\<close>

record reldelta =
  years :: int
  months :: int
  days :: rat
  hours :: rat

text \<open>\<^verbatim>\<open>int(x)\<close> on a number truncates towards zero.\<close>

definition py_int :: "rat \<Rightarrow> int" where
  "py_int x = (if x \<ge> 0 then \<lfloor>x\<rfloor> else - \<lfloor>- x\<rfloor>)"

text \<open>\<^verbatim>\<open>_sign(x) = int(copysign(1, x))\<close>.\<close>

definition sign_rat :: "rat \<Rightarrow> rat" where
  "sign_rat x = (if x < 0 then - 1 else 1)"

definition sign_int :: "int \<Rightarrow> int" where
  "sign_int x = (if x < 0 then - 1 else 1)"

text \<open>
  \<^verbatim>\<open>_fix\<close>: hours beyond \<open>\<plusminus>23\<close> carry into days, months beyond \<open>\<plusminus>11\<close> carry
  into years; each carry works on the absolute value and restores the sign.
\<close>

definition rd_fix :: "reldelta \<Rightarrow> reldelta" where
  "rd_fix self =
     (let self = (if \<bar>hours self\<bar> > 23
                  then let s = sign_rat (hours self);
                           dv = \<lfloor>hours self * s / 24\<rfloor>;
                           md = hours self * s - 24 * of_int dv
                       in self\<lparr>hours := md * s, days := days self + of_int dv * s\<rparr>
                  else self)
      in if \<bar>months self\<bar> > 11
         then let s = sign_int (months self);
                  dv = (months self * s) div 12;
                  md = (months self * s) mod 12
              in self\<lparr>months := md * s, years := years self + dv * s\<rparr>
         else self)"

definition has_time :: "reldelta \<Rightarrow> bool" where
  "has_time self \<longleftrightarrow> hours self \<noteq> 0"

text \<open>
  The constructor \<^verbatim>\<open>relativedelta(years=.., months=.., days=.., hours=..)\<close>: years and
  months that are not whole numbers are refused.
\<close>

definition relativedelta :: "rat \<Rightarrow> rat \<Rightarrow> rat \<Rightarrow> rat \<Rightarrow> error + reldelta" where
  "relativedelta ys ms ds hs =
     (if ys \<noteq> of_int (py_int ys) \<or> ms \<noteq> of_int (py_int ms) then Inl ValueError
      else Inr (rd_fix \<lparr>years = py_int ys, months = py_int ms, days = ds, hours = hs\<rparr>))"

text \<open>
  The keyword that \<^verbatim>\<open>generate_x_axis\<close> passes through \<^verbatim>\<open>**kwargs\<close> is one of the four
  names the exporters give it.
\<close>

datatype delta_unit = Hours | Days | Months | Years

fun relativedelta_kwargs :: "delta_unit \<Rightarrow> rat \<Rightarrow> error + reldelta" where
  "relativedelta_kwargs Hours v = relativedelta 0 0 0 v"
| "relativedelta_kwargs Days v = relativedelta 0 0 v 0"
| "relativedelta_kwargs Months v = relativedelta 0 v 0 0"
| "relativedelta_kwargs Years v = relativedelta v 0 0 0"

text \<open>\<^verbatim>\<open>__neg__\<close> builds a new object from the negated fields, which runs \<^verbatim>\<open>_fix\<close> again.\<close>

definition rd_neg :: "reldelta \<Rightarrow> reldelta" where
  "rd_neg self =
     rd_fix \<lparr>years = - years self, months = - months self,
          days = - days self, hours = - hours self\<rparr>"

text \<open>
  \<^verbatim>\<open>__add__\<close> (and \<^verbatim>\<open>__radd__\<close>) on a date or datetime: a date is promoted to a
  datetime when the delta has a time part; year and month are shifted with a carry; the
  day is clamped to the length of the target month; the days and hours are then added as a
  \<^verbatim>\<open>timedelta\<close>.
\<close>

definition rd_add :: "reldelta \<Rightarrow> pydate \<Rightarrow> error + pydate" where
  "rd_add self other0 =
     (let other = (case other0 of
                     Date y m d \<Rightarrow>
                       if has_time self
                       then (case ord2ymd (toordinal other0) of
                               (y', m', d') \<Rightarrow> DateTime y' m' d' 0 0 0 0)
                       else other0
                   | DateTime y m d hh mm ss us \<Rightarrow> other0);
          year = year_of other + years self;
          month = month_of other;
          month' = (if months self \<noteq> 0 then month + months self else month);
          year' = (if months self \<noteq> 0
                   then (if month' > 12 then year + 1 else if month' < 1 then year - 1 else year)
                   else year);
          month'' = (if months self \<noteq> 0
                     then (if month' > 12 then month' - 12
                           else if month' < 1 then month' + 12 else month')
                     else month)
      in case monthrange year' month'' of
           Inl e \<Rightarrow> Inl e
         | Inr ndays \<Rightarrow>
             (case replace_ymd other year' month'' (min ndays (day_of other)) of
                Inl e \<Rightarrow> Inl e
              | Inr repl \<Rightarrow>
                  (case timedelta_of (days self) (hours self) of
                     Inl e \<Rightarrow> Inl e
                   | Inr td \<Rightarrow> add_timedelta repl td)))"

text \<open>\<^verbatim>\<open>dt - delta\<close> is \<^verbatim>\<open>delta.__rsub__(dt)\<close>, that is \<^verbatim>\<open>(-delta).__radd__(dt)\<close>.\<close>

definition rd_rsub :: "reldelta \<Rightarrow> pydate \<Rightarrow> error + pydate" where
  "rd_rsub self dt = rd_add (rd_neg self) dt"

section \<open>Strings and numbers\<close>

text \<open>
  A Python string is modelled by a \<open>string\<close> whose characters are the code points below
  256. In that range the decimal digits (\<^verbatim>\<open>\d\<close> of \<^verbatim>\<open>re\<close>, and the digits \<^verbatim>\<open>int\<close>
  accepts) are \<^verbatim>\<open>0\<close> to \<^verbatim>\<open>9\<close>, and the white space that \<^verbatim>\<open>int\<close> strips is the set
  below.
\<close>

definition is_digit :: "char \<Rightarrow> bool" where
  "is_digit c \<longleftrightarrow> c \<in> set ''0123456789''"

definition digit_val :: "char \<Rightarrow> int" where
  "digit_val c = of_char c - 48"

definition py_isspace :: "char \<Rightarrow> bool" where
  "py_isspace c \<longleftrightarrow> (of_char c :: nat) \<in> {9, 10, 11, 12, 13, 32, 133, 160}"

definition strip :: "string \<Rightarrow> string" where
  "strip s = rev (dropWhile py_isspace (rev (dropWhile py_isspace s)))"

text \<open>
  \<^verbatim>\<open>int(s)\<close> for a string in base 10: optional white space, an optional sign, then
  digits in which single underscores may separate digits. \<open>None\<close> is \<^verbatim>\<open>ValueError\<close>.
  (The limit that Python 3.11 puts on the number of digits is not modelled.)
\<close>

fun py_digits :: "int \<Rightarrow> string \<Rightarrow> int option" where
  "py_digits acc [] = Some acc"
| "py_digits acc (c # cs) =
     (if is_digit c then py_digits (10 * acc + digit_val c) cs
      else if c = CHR ''_'' \<and> cs \<noteq> [] \<and> is_digit (hd cs) then py_digits acc cs
      else None)"

definition py_unsigned :: "string \<Rightarrow> int option" where
  "py_unsigned s = (case s of [] \<Rightarrow> None
                    | c # cs \<Rightarrow> if is_digit c then py_digits 0 s else None)"

definition int_of_str :: "string \<Rightarrow> int option" where
  "int_of_str s =
     (case strip s of
        [] \<Rightarrow> None
      | c # cs \<Rightarrow>
          if c = CHR ''-'' then map_option uminus (py_unsigned cs)
          else if c = CHR ''+'' then py_unsigned cs
          else py_unsigned (c # cs))"

text \<open>Decimal notation, as \<^verbatim>\<open>str(int)\<close> and the numeric conversions print it.\<close>

definition digit_char :: "nat \<Rightarrow> char" where
  "digit_char n = ''0123456789'' ! (n mod 10)"

fun str_of_nat :: "nat \<Rightarrow> string" where
  "str_of_nat n = (if n < 10 then [digit_char n]
                   else str_of_nat (n div 10) @ [digit_char n])"

declare str_of_nat.simps [simp del]

definition str_of_int :: "int \<Rightarrow> string" where
  "str_of_int i = (if i < 0 then CHR ''-'' # str_of_nat (nat (- i)) else str_of_nat (nat i))"

definition zero_pad :: "nat \<Rightarrow> string \<Rightarrow> string" where
  "zero_pad w s = replicate (w - length s) (CHR ''0'') @ s"

section \<open>\<^verbatim>\<open>strptime\<close> with the format \<^verbatim>\<open>%d/%m/%Y\<close>\<close>

text \<open>
  \<^verbatim>\<open>_strptime\<close> compiles the format into the regular expression
  \<^verbatim>\<open>(3[0-1]|[1-2]\d|0[1-9]|[1-9]| [1-9])/(1[0-2]|0[1-9]|[1-9])/(\d\d\d\d)\<close> and takes the
  first match that the backtracking matcher finds at the start of the string; text left
  after the match, a year 0 and a day beyond the month's length are each a
  \<^verbatim>\<open>ValueError\<close>. An alternative is a sequence of character classes; \<open>match_alts\<close>
  lists the ways the alternatives match a prefix, in the order the matcher tries them.
\<close>

fun match_seq :: "(char \<Rightarrow> bool) list \<Rightarrow> string \<Rightarrow> (string \<times> string) option" where
  "match_seq [] s = Some ([], s)"
| "match_seq (p # ps) [] = None"
| "match_seq (p # ps) (c # cs) =
     (if p c then (case match_seq ps cs of None \<Rightarrow> None
                   | Some (m, r) \<Rightarrow> Some (c # m, r))
      else None)"

definition match_alts :: "(char \<Rightarrow> bool) list list \<Rightarrow> string \<Rightarrow> (string \<times> string) list" where
  "match_alts alts s = List.map_filter (\<lambda>a. match_seq a s) alts"

definition in_range :: "char \<Rightarrow> char \<Rightarrow> char \<Rightarrow> bool" where
  "in_range lo hi c \<longleftrightarrow> (of_char lo :: nat) \<le> of_char c \<and> (of_char c :: nat) \<le> of_char hi"

definition re_d :: "(char \<Rightarrow> bool) list list" where
  "re_d = [[(=) CHR ''3'', in_range CHR ''0'' CHR ''1''],
           [in_range CHR ''1'' CHR ''2'', is_digit],
           [(=) CHR ''0'', in_range CHR ''1'' CHR ''9''],
           [in_range CHR ''1'' CHR ''9''],
           [(=) CHR '' '', in_range CHR ''1'' CHR ''9'']]"

definition re_m :: "(char \<Rightarrow> bool) list list" where
  "re_m = [[(=) CHR ''1'', in_range CHR ''0'' CHR ''2''],
           [(=) CHR ''0'', in_range CHR ''1'' CHR ''9''],
           [in_range CHR ''1'' CHR ''9'']]"

definition re_Y :: "(char \<Rightarrow> bool) list list" where
  "re_Y = [[is_digit, is_digit, is_digit, is_digit]]"

definition re_slash :: "(char \<Rightarrow> bool) list list" where
  "re_slash = [[(=) CHR ''/'']]"

definition regex_matches :: "string \<Rightarrow> (string \<times> string \<times> string \<times> string) list" where
  "regex_matches s =
     [(d, m, y, r5).
        (d, r1) \<leftarrow> match_alts re_d s, (s1, r2) \<leftarrow> match_alts re_slash r1,
        (m, r3) \<leftarrow> match_alts re_m r2, (s2, r4) \<leftarrow> match_alts re_slash r3,
        (y, r5) \<leftarrow> match_alts re_Y r4]"

text \<open>
  \<^verbatim>\<open>datetime.datetime.strptime(s, "%d/%m/%Y").date()\<close>. The groups are digits (the day
  possibly after one space), on which \<^verbatim>\<open>int\<close> cannot fail.
\<close>

definition strptime_date :: "string \<Rightarrow> error + pydate" where
  "strptime_date s =
     (case regex_matches s of
        [] \<Rightarrow> Inl ValueError
      | (d, m, y, rest) # _ \<Rightarrow>
          if rest \<noteq> [] then Inl ValueError
          else (case (int_of_str d, int_of_str m, int_of_str y) of
                  (Some day, Some month, Some year) \<Rightarrow>
                    if check_date_fields year month day then Inr (Date year month day)
                    else Inl ValueError
                | _ \<Rightarrow> Inl ValueError))"

section \<open>\<^verbatim>\<open>strftime\<close>\<close>

text \<open>
  The directives that the program uses, in the C locale that a script which never calls
  \<^verbatim>\<open>setlocale\<close> runs in: \<^verbatim>\<open>%d\<close>, \<^verbatim>\<open>%m\<close>, \<^verbatim>\<open>%b\<close>, \<^verbatim>\<open>%Y\<close> (four digits, as the
  library documents it; some C libraries print a year below 1000 without the leading
  zeros), \<^verbatim>\<open>%H\<close>, \<^verbatim>\<open>%M\<close>, and \<^verbatim>\<open>%%\<close>. Every other character is copied. A
  \<^verbatim>\<open>date\<close> formats its time fields as midnight.
\<close>

definition MONTHNAMES :: "string list" where
  "MONTHNAMES = [[], ''Jan'', ''Feb'', ''Mar'', ''Apr'', ''May'', ''Jun'',
                 ''Jul'', ''Aug'', ''Sep'', ''Oct'', ''Nov'', ''Dec'']"

definition directive :: "char \<Rightarrow> pydate \<Rightarrow> string" where
  "directive c dt =
     (if c = CHR ''d'' then zero_pad 2 (str_of_int (day_of dt))
      else if c = CHR ''m'' then zero_pad 2 (str_of_int (month_of dt))
      else if c = CHR ''b'' then MONTHNAMES ! nat (month_of dt)
      else if c = CHR ''Y'' then zero_pad 4 (str_of_int (year_of dt))
      else if c = CHR ''H'' then zero_pad 2 (str_of_int (hour_of dt))
      else if c = CHR ''M'' then zero_pad 2 (str_of_int (minute_of dt))
      else if c = CHR ''%'' then ''%''
      else [CHR ''%'', c])"

fun strftime :: "pydate \<Rightarrow> string \<Rightarrow> string" where
  "strftime dt [] = []"
| "strftime dt [c] = [c]"
| "strftime dt (c # c' # cs) =
     (if c = CHR ''%'' then directive c' dt @ strftime dt cs
      else c # strftime dt (c' # cs))"

text \<open>\<^verbatim>\<open>dtostr\<close> (source lines 73 to 75).\<close>

definition dtostr :: "pydate \<Rightarrow> string" where
  "dtostr date = strftime date ''%d/%m/%Y''"

section \<open>The response of the data source\<close>

text \<open>
  \<^verbatim>\<open>res\<close> is the decoded JSON document
  \<^verbatim>\<open>{"graphe": {"data": [{"valeur": v}, ...], "periode": {"dateDebut": s}, "decalage": n}}\<close>.
  Every key may be absent (\<open>None\<close>), which is what makes a subscript raise
  \<^verbatim>\<open>KeyError\<close>; a key that is present holds a value of the type the data source gives it:
  a number (integer or float) for \<^verbatim>\<open>valeur\<close>, a string for \<^verbatim>\<open>dateDebut\<close>, an integer
  for \<^verbatim>\<open>decalage\<close>. A float is modelled by the rational it denotes.
\<close>

datatype number = PyInt int | PyFloat rat

record datapoint =
  valeur :: "number option"

record periode_obj =
  dateDebut :: "string option"

record graphe_obj =
  data :: "datapoint list option"
  periode :: "periode_obj option"
  decalage :: "int option"

record response =
  graphe :: "graphe_obj option"

definition getitem :: "string \<Rightarrow> 'a option \<Rightarrow> error + 'a" where
  "getitem key field = (case field of None \<Rightarrow> Inl (KeyError key) | Some v \<Rightarrow> Inr v)"

text \<open>\<^verbatim>\<open>value < 0\<close> on a number.\<close>

fun lt_zero :: "number \<Rightarrow> bool" where
  "lt_zero (PyInt i) = (i < 0)"
| "lt_zero (PyFloat r) = (r < 0)"

text \<open>
  \<^verbatim>\<open>list.insert(i, x)\<close> for a non-negative index: an index beyond the end inserts at the
  end, which is what \<open>take\<close> and \<open>drop\<close> give.
\<close>

definition list_insert :: "nat \<Rightarrow> 'a \<Rightarrow> 'a list \<Rightarrow> 'a list" where
  "list_insert i x xs = take i xs @ x # drop i xs"

text \<open>\<^verbatim>\<open>xs[i]\<close> for a non-negative index.\<close>

definition list_getitem :: "'a list \<Rightarrow> nat \<Rightarrow> error + 'a" where
  "list_getitem xs i = (if i < length xs then Inr (xs ! i) else Inl IndexError)"

section \<open>\<^verbatim>\<open>generate_y_axis\<close> (source lines 33 to 48)\<close>

text \<open>The loop over \<^verbatim>\<open>enumerate(res['graphe']['data'])\<close>, with its counter \<^verbatim>\<open>ordre\<close>.\<close>

fun y_loop :: "nat \<Rightarrow> datapoint list \<Rightarrow> number list \<Rightarrow> error + number list" where
  "y_loop ordre [] y_values = Inr y_values"
| "y_loop ordre (datapoint # rest) y_values =
     (case getitem ''valeur'' (valeur datapoint) of
        Inl e \<Rightarrow> Inl e
      | Inr val \<Rightarrow>
          (let val = (if lt_zero val then PyInt 0 else val)
           in y_loop (ordre + 1) rest (list_insert ordre val y_values)))"

definition generate_y_axis :: "response \<Rightarrow> error + number list" where
  "generate_y_axis res =
     (case getitem ''graphe'' (graphe res) of
        Inl e \<Rightarrow> Inl e
      | Inr g \<Rightarrow>
          (case getitem ''data'' (data g) of
             Inl e \<Rightarrow> Inl e
           | Inr ds \<Rightarrow> y_loop 0 ds []))"

section \<open>\<^verbatim>\<open>generate_x_axis\<close> (source lines 51 to 70)\<close>

fun x_loop :: "delta_unit \<Rightarrow> string \<Rightarrow> rat \<Rightarrow> pydate \<Rightarrow> nat \<Rightarrow> datapoint list
                 \<Rightarrow> string list \<Rightarrow> error + string list" where
  "x_loop time_delta_unit time_format inc start_date ordre [] x_values = Inr x_values"
| "x_loop time_delta_unit time_format inc start_date ordre (datapoint # rest) x_values =
     (case relativedelta_kwargs time_delta_unit (of_nat ordre * inc) of
        Inl e \<Rightarrow> Inl e
      | Inr delta \<Rightarrow>
          (case rd_add delta start_date of
             Inl e \<Rightarrow> Inl e
           | Inr t \<Rightarrow>
               x_loop time_delta_unit time_format inc start_date (ordre + 1) rest
                 (list_insert ordre (strftime t time_format) x_values)))"

definition generate_x_axis :: "response \<Rightarrow> delta_unit \<Rightarrow> string \<Rightarrow> rat \<Rightarrow> error + string list" where
  "generate_x_axis res time_delta_unit time_format inc =
     (case getitem ''graphe'' (graphe res) of
        Inl e \<Rightarrow> Inl e
      | Inr g \<Rightarrow>
     (case getitem ''periode'' (periode g) of
        Inl e \<Rightarrow> Inl e
      | Inr p \<Rightarrow>
     (case getitem ''dateDebut'' (dateDebut p) of
        Inl e \<Rightarrow> Inl e
      | Inr start_date_queried_str \<Rightarrow>
     (case strptime_date start_date_queried_str of
        Inl e \<Rightarrow> Inl e
      | Inr start_date_queried \<Rightarrow>
     (case getitem ''decalage'' (decalage g) of
        Inl e \<Rightarrow> Inl e
      | Inr dec \<Rightarrow>
     (case relativedelta_kwargs time_delta_unit (of_int dec * inc) of
        Inl e \<Rightarrow> Inl e
      | Inr delta \<Rightarrow>
     (case rd_rsub delta start_date_queried of
        Inl e \<Rightarrow> Inl e
      | Inr start_date \<Rightarrow>
     (case getitem ''data'' (data g) of
        Inl e \<Rightarrow> Inl e
      | Inr ds \<Rightarrow>
          x_loop time_delta_unit time_format inc start_date 0 ds []))))))))"

section \<open>Records, JSON text and files\<close>

text \<open>The dictionary \<^verbatim>\<open>{"time": ..., "conso": ...}\<close>, its keys in insertion order.\<close>

record point =
  time :: string
  conso :: number

text \<open>
  The pairing loop that each exporter runs (source lines 96 to 99 for the days):
  \<^verbatim>\<open>for i in range(0, len(x_values)): values.append({"time": x_values[i], "conso": y_values[i]})\<close>.
\<close>

fun append_loop :: "nat list \<Rightarrow> string list \<Rightarrow> number list \<Rightarrow> point list
                      \<Rightarrow> error + point list" where
  "append_loop [] x_values y_values acc = Inr acc"
| "append_loop (i # rest) x_values y_values acc =
     (case list_getitem x_values i of
        Inl e \<Rightarrow> Inl e
      | Inr t \<Rightarrow>
          (case list_getitem y_values i of
             Inl e \<Rightarrow> Inl e
           | Inr c \<Rightarrow> append_loop rest x_values y_values (acc @ [\<lparr>time = t, conso = c\<rparr>])))"

definition pair_records :: "string list \<Rightarrow> number list \<Rightarrow> error + point list" where
  "pair_records x_values y_values =
     append_loop [0..<length x_values] x_values y_values []"

text \<open>
  \<^verbatim>\<open>json.dump\<close> with its defaults writes the chunks of \<^verbatim>\<open>iterencode\<close> one after the
  other. Strings are escaped as \<^verbatim>\<open>ensure_ascii\<close> asks: backslash, double quote and the
  five short escapes, and \<^verbatim>\<open>\uXXXX\<close> for every other character outside \<open>' '..'~'\<close>.
  An integer prints in decimal; the text of a float is \<^verbatim>\<open>float.__repr__\<close>, which the
  model takes as the parameter \<open>float_repr\<close>.
\<close>

definition hex_digit :: "nat \<Rightarrow> char" where
  "hex_digit n = ''0123456789abcdef'' ! (n mod 16)"

definition escape_char :: "char \<Rightarrow> string" where
  "escape_char c =
     (let n = (of_char c :: nat)
      in if c = CHR 0x5C then [CHR 0x5C, CHR 0x5C]
         else if c = CHR 0x22 then [CHR 0x5C, CHR 0x22]
         else if n = 8 then [CHR 0x5C, CHR ''b'']
         else if n = 12 then [CHR 0x5C, CHR ''f'']
         else if n = 10 then [CHR 0x5C, CHR ''n'']
         else if n = 13 then [CHR 0x5C, CHR ''r'']
         else if n = 9 then [CHR 0x5C, CHR ''t'']
         else if 32 \<le> n \<and> n \<le> 126 then [c]
         else [CHR 0x5C, CHR ''u'', CHR ''0'', CHR ''0'', hex_digit (n div 16), hex_digit n])"

definition encode_str :: "string \<Rightarrow> string" where
  "encode_str s = CHR 0x22 # concat (map escape_char s) @ [CHR 0x22]"

fun encode_number :: "(rat \<Rightarrow> string) \<Rightarrow> number \<Rightarrow> string" where
  "encode_number float_repr (PyInt i) = str_of_int i"
| "encode_number float_repr (PyFloat r) = float_repr r"

definition iterencode_dict :: "(rat \<Rightarrow> string) \<Rightarrow> point \<Rightarrow> string list" where
  "iterencode_dict float_repr p =
     [''{'', encode_str ''time'', '': '', encode_str (time p), '', '',
      encode_str ''conso'', '': '', encode_number float_repr (conso p), ''}'']"

fun iterencode_items :: "(rat \<Rightarrow> string) \<Rightarrow> bool \<Rightarrow> point list \<Rightarrow> string list" where
  "iterencode_items float_repr first [] = []"
| "iterencode_items float_repr first (p # ps) =
     (if first then ''['' else '', '') # iterencode_dict float_repr p
       @ iterencode_items float_repr False ps"

definition iterencode :: "(rat \<Rightarrow> string) \<Rightarrow> point list \<Rightarrow> string list" where
  "iterencode float_repr lst =
     (if lst = [] then [''[]''] else iterencode_items float_repr True lst @ ['']''])"

text \<open>
  The file system: the content of each path, and the paths that cannot be opened for
  writing (a missing directory, a permission). \<^verbatim>\<open>open(path, 'w+')\<close> truncates the file;
  \<^verbatim>\<open>write\<close> appends at the position of the file object, which is the end of what it has
  written so far.
\<close>

record filesystem =
  contents :: "string \<Rightarrow> string option"
  denied :: "string \<Rightarrow> bool"

definition open_w :: "string \<Rightarrow> filesystem \<Rightarrow> error + filesystem" where
  "open_w path fs =
     (if denied fs path then Inl OSError
      else Inr (fs\<lparr>contents := (contents fs)(path \<mapsto> [])\<rparr>))"

definition fp_write :: "string \<Rightarrow> filesystem \<Rightarrow> string \<Rightarrow> filesystem" where
  "fp_write path fs chunk =
     fs\<lparr>contents := (contents fs)(path \<mapsto> (case contents fs path of None \<Rightarrow> chunk
                                              | Some old \<Rightarrow> old @ chunk))\<rparr>"

definition json_dump :: "(rat \<Rightarrow> string) \<Rightarrow> point list \<Rightarrow> string \<Rightarrow> filesystem \<Rightarrow> filesystem" where
  "json_dump float_repr obj path fs = foldl (fp_write path) fs (iterencode float_repr obj)"

section \<open>The exporters (source lines 78 to 131)\<close>

text \<open>
  Each exporter returns \<open>Inr ()\<close> or the exception it raised, together with the file
  system it leaves. \<^verbatim>\<open>BASEDIR\<close> is the module's global.
\<close>

definition write_values :: "(rat \<Rightarrow> string) \<Rightarrow> string \<Rightarrow> point list \<Rightarrow> filesystem
                              \<Rightarrow> (error + unit) \<times> filesystem" where
  "write_values float_repr path vals fs =
     (case open_w path fs of
        Inl e \<Rightarrow> (Inl e, fs)
      | Inr fs' \<Rightarrow> (Inr (), json_dump float_repr vals path fs'))"

definition export_hours_values :: "(rat \<Rightarrow> string) \<Rightarrow> string \<Rightarrow> response \<Rightarrow> filesystem
                                     \<Rightarrow> (error + unit) \<times> filesystem" where
  "export_hours_values float_repr BASEDIR res fs =
     (case generate_x_axis res Hours ''%H:%M'' (1 / 2) of
        Inl e \<Rightarrow> (Inl e, fs)
      | Inr hours_x_values \<Rightarrow>
          (case generate_y_axis res of
             Inl e \<Rightarrow> (Inl e, fs)
           | Inr hours_y_values \<Rightarrow>
               (case pair_records hours_x_values hours_y_values of
                  Inl e \<Rightarrow> (Inl e, fs)
                | Inr hours_values \<Rightarrow>
                    write_values float_repr (BASEDIR @ ''/export_hours_values.json'')
                      hours_values fs)))"

definition export_days_values :: "(rat \<Rightarrow> string) \<Rightarrow> string \<Rightarrow> response \<Rightarrow> filesystem
                                    \<Rightarrow> (error + unit) \<times> filesystem" where
  "export_days_values float_repr BASEDIR res fs =
     (case generate_x_axis res Days ''%d %b %Y'' 1 of
        Inl e \<Rightarrow> (Inl e, fs)
      | Inr days_x_values \<Rightarrow>
          (case generate_y_axis res of
             Inl e \<Rightarrow> (Inl e, fs)
           | Inr days_y_values \<Rightarrow>
               (case pair_records days_x_values days_y_values of
                  Inl e \<Rightarrow> (Inl e, fs)
                | Inr days_values \<Rightarrow>
                    write_values float_repr (BASEDIR @ ''/export_days_values.json'')
                      days_values fs)))"

definition export_months_values :: "(rat \<Rightarrow> string) \<Rightarrow> string \<Rightarrow> response \<Rightarrow> filesystem
                                      \<Rightarrow> (error + unit) \<times> filesystem" where
  "export_months_values float_repr BASEDIR res fs =
     (case generate_x_axis res Months ''%b'' 1 of
        Inl e \<Rightarrow> (Inl e, fs)
      | Inr months_x_values \<Rightarrow>
          (case generate_y_axis res of
             Inl e \<Rightarrow> (Inl e, fs)
           | Inr months_y_values \<Rightarrow>
               (case pair_records months_x_values months_y_values of
                  Inl e \<Rightarrow> (Inl e, fs)
                | Inr months_values \<Rightarrow>
                    write_values float_repr (BASEDIR @ ''/export_months_values.json'')
                      months_values fs)))"

definition export_years_values :: "(rat \<Rightarrow> string) \<Rightarrow> string \<Rightarrow> response \<Rightarrow> filesystem
                                     \<Rightarrow> (error + unit) \<times> filesystem" where
  "export_years_values float_repr BASEDIR res fs =
     (case generate_x_axis res Years ''%Y'' 1 of
        Inl e \<Rightarrow> (Inl e, fs)
      | Inr years_x_values \<Rightarrow>
          (case generate_y_axis res of
             Inl e \<Rightarrow> (Inl e, fs)
           | Inr years_y_values \<Rightarrow>
               (case pair_records years_x_values years_y_values of
                  Inl e \<Rightarrow> (Inl e, fs)
                | Inr years_values \<Rightarrow>
                    write_values float_repr (BASEDIR @ ''/export_years_values.json'')
                      years_values fs)))"

section \<open>The pipeline driver \<^verbatim>\<open>main\<close> (source lines 135 to 172)\<close>

text \<open>
  The module \<^verbatim>\<open>linky\<close> is an external collaborator: its three operations are parameters
  of the model, each a function from its arguments to a result or an exception. What
  \<^verbatim>\<open>main\<close> does to the outside is recorded, in order, in a trace: the messages it logs
  and the calls it makes to \<^verbatim>\<open>linky\<close>.
\<close>

record 't linky =
  login :: "string \<Rightarrow> string \<Rightarrow> error + 't"
  get_data_per_month :: "'t \<Rightarrow> string \<Rightarrow> string \<Rightarrow> error + response"
  get_data_per_day :: "'t \<Rightarrow> string \<Rightarrow> string \<Rightarrow> error + response"

datatype 't event =
    LogInfo string
  | LogError error
  | CallLogin string string
  | CallGetDataPerMonth 't string string
  | CallGetDataPerDay 't string string

text \<open>The module's globals, read from the environment when the module is loaded.\<close>

record globals =
  USERNAME :: string
  PASSWORD :: string
  BASEDIR :: string

text \<open>
  How a call of \<^verbatim>\<open>main\<close> ends: it returns (the process then exits with code 0), it
  leaves through \<^verbatim>\<open>sys.exit(code)\<close>, or an exception propagates out of it.
\<close>

datatype outcome = Returned | SysExit int | Raised error

text \<open>\<^verbatim>\<open>today - relativedelta(days=ds, months=ms)\<close> for integers.\<close>

definition minus_relativedelta :: "pydate \<Rightarrow> int \<Rightarrow> int \<Rightarrow> error + pydate" where
  "minus_relativedelta dt ds ms =
     (case relativedelta 0 (of_int ms) (of_int ds) 0 of
        Inl e \<Rightarrow> Inl e
      | Inr delta \<Rightarrow> rd_rsub delta dt)"

text \<open>
  Source lines 163 to 166: the export of the daily values, with every exception caught and
  logged.
\<close>

definition export_stage :: "(rat \<Rightarrow> string) \<Rightarrow> globals \<Rightarrow> response \<Rightarrow> 't event list
                              \<Rightarrow> filesystem \<Rightarrow> 't event list \<times> filesystem" where
  "export_stage float_repr gl res_day tr fs =
     (case export_days_values float_repr (BASEDIR gl) res_day fs of
        (Inl e, fs') \<Rightarrow> (tr @ [LogInfo ''days values non exported''], fs')
      | (Inr u, fs') \<Rightarrow> (tr, fs'))"

text \<open>
  Source lines 151 to 159: the two requests. The arguments of a call are evaluated from
  left to right before the call is made.
\<close>

definition fetch_stage :: "'t linky \<Rightarrow> 't \<Rightarrow> pydate \<Rightarrow> int \<Rightarrow> int \<Rightarrow> 't event list
                             \<Rightarrow> (error + response) \<times> 't event list" where
  "fetch_stage lk token today mmonth mmonthnext tr =
     (case minus_relativedelta today 0 11 of
        Inl e \<Rightarrow> (Inl e, tr)
      | Inr d1 \<Rightarrow>
     (let tr = tr @ [CallGetDataPerMonth token (dtostr d1) (dtostr today)]
      in case get_data_per_month lk token (dtostr d1) (dtostr today) of
        Inl e \<Rightarrow> (Inl e, tr)
      | Inr res_month \<Rightarrow>
     (case minus_relativedelta today 1 mmonthnext of
        Inl e \<Rightarrow> (Inl e, tr)
      | Inr d2 \<Rightarrow>
     (case minus_relativedelta today 1 mmonth of
        Inl e \<Rightarrow> (Inl e, tr)
      | Inr d3 \<Rightarrow>
     (let tr = tr @ [CallGetDataPerDay token (dtostr d2) (dtostr d3)]
      in case get_data_per_day lk token (dtostr d2) (dtostr d3) of
        Inl e \<Rightarrow> (Inl e, tr)
      | Inr res_day \<Rightarrow> (Inr res_day, tr @ [LogInfo ''got data!'']))))))"

text \<open>
  Source lines 144 to 149: the command-line argument is read, converted twice and the two
  shifted dates are logged. \<^verbatim>\<open>sys.argv[1]\<close> raises \<^verbatim>\<open>IndexError\<close> when the argument is
  missing, \<^verbatim>\<open>int\<close> raises \<^verbatim>\<open>ValueError\<close> when it is not an integer.
\<close>

definition arg_stage :: "string list \<Rightarrow> pydate \<Rightarrow> 't event list
                           \<Rightarrow> (error + int \<times> int) \<times> 't event list" where
  "arg_stage argv today tr =
     (case list_getitem argv 1 of
        Inl e \<Rightarrow> (Inl e, tr)
      | Inr arg \<Rightarrow>
     (let tr = tr @ [LogInfo (''arg '' @ arg)]
      in case int_of_str arg of
        None \<Rightarrow> (Inl ValueError, tr)
      | Some mmonth \<Rightarrow>
     (let mmonthnext = mmonth + 1
      in case minus_relativedelta today 1 mmonth of
        Inl e \<Rightarrow> (Inl e, tr)
      | Inr d1 \<Rightarrow>
     (let tr = tr @ [LogInfo (dtostr d1)]
      in case minus_relativedelta today 1 mmonthnext of
        Inl e \<Rightarrow> (Inl e, tr)
      | Inr d2 \<Rightarrow> (Inr (mmonth, mmonthnext), tr @ [LogInfo (dtostr d2)])))))"

text \<open>The body of the outer \<^verbatim>\<open>try\<close> (source lines 139 to 166).\<close>

definition try_body :: "(rat \<Rightarrow> string) \<Rightarrow> 't linky \<Rightarrow> globals \<Rightarrow> string list \<Rightarrow> pydate
                          \<Rightarrow> filesystem \<Rightarrow> (error + unit) \<times> 't event list \<times> filesystem" where
  "try_body float_repr lk gl argv today fs =
     (let tr = [LogInfo (''logging in as '' @ USERNAME gl @ ''...''),
                CallLogin (USERNAME gl) (PASSWORD gl)]
      in case login lk (USERNAME gl) (PASSWORD gl) of
        Inl e \<Rightarrow> (Inl e, tr, fs)
      | Inr token \<Rightarrow>
     (let tr = tr @ [LogInfo ''logged in successfully!'', LogInfo ''retreiving data...'']
      in case arg_stage argv today tr of
        (Inl e, tr) \<Rightarrow> (Inl e, tr, fs)
      | (Inr (mmonth, mmonthnext), tr) \<Rightarrow>
     (case fetch_stage lk token today mmonth mmonthnext tr of
        (Inl e, tr) \<Rightarrow> (Inl e, tr, fs)
      | (Inr res_day, tr) \<Rightarrow>
          (case export_stage float_repr gl res_day tr fs of
             (tr, fs') \<Rightarrow> (Inr (), tr, fs')))))"

text \<open>
  \<^verbatim>\<open>main\<close>: the body under \<^verbatim>\<open>except linky.LinkyLoginException\<close>, which logs the
  exception and calls \<^verbatim>\<open>sys.exit(1)\<close>; any other exception propagates.
\<close>

definition main :: "(rat \<Rightarrow> string) \<Rightarrow> 't linky \<Rightarrow> globals \<Rightarrow> string list \<Rightarrow> pydate
                      \<Rightarrow> filesystem \<Rightarrow> outcome \<times> 't event list \<times> filesystem" where
  "main float_repr lk gl argv today fs =
     (case try_body float_repr lk gl argv today fs of
        (Inr u, tr, fs') \<Rightarrow> (Returned, tr, fs')
      | (Inl e, tr, fs') \<Rightarrow>
          if e = LinkyLoginException then (SysExit 1, tr @ [LogError e], fs')
          else (Raised e, tr, fs'))"

text \<open>
  The module as a script: the three globals are read from the environment (source lines
  28 to 30), a missing variable being a \<^verbatim>\<open>KeyError\<close>, and \<^verbatim>\<open>main\<close> is called.
\<close>

definition script :: "(rat \<Rightarrow> string) \<Rightarrow> 't linky \<Rightarrow> (string \<Rightarrow> string option) \<Rightarrow> string list
                        \<Rightarrow> pydate \<Rightarrow> filesystem \<Rightarrow> outcome \<times> 't event list \<times> filesystem" where
  "script float_repr lk environ argv today fs =
     (case getitem ''LINKY_USERNAME'' (environ ''LINKY_USERNAME'') of
        Inl e \<Rightarrow> (Raised e, [], fs)
      | Inr u \<Rightarrow>
     (case getitem ''LINKY_PASSWORD'' (environ ''LINKY_PASSWORD'') of
        Inl e \<Rightarrow> (Raised e, [], fs)
      | Inr p \<Rightarrow>
     (case getitem ''BASE_DIR'' (environ ''BASE_DIR'') of
        Inl e \<Rightarrow> (Raised e, [], fs)
      | Inr b \<Rightarrow>
          main float_repr lk \<lparr>USERNAME = u, PASSWORD = p, BASEDIR = b\<rparr> argv today fs)))"

section \<open>Example inputs\<close>

text \<open>
  The end-to-end scenario of the specification: \<^verbatim>\<open>dateDebut = "01/03/2024"\<close>,
  \<^verbatim>\<open>decalage = 2\<close> and the three values \<open>-5\<close>, \<open>10\<close>, \<open>20\<close>; an empty file system in
  which every path can be written; a collaborator that accepts every login and answers
  every request with the scenario's response.
\<close>

definition scenario_data :: "datapoint list" where
  "scenario_data = [\<lparr>valeur = Some (PyInt (- 5))\<rparr>, \<lparr>valeur = Some (PyInt 10)\<rparr>,
                    \<lparr>valeur = Some (PyInt 20)\<rparr>]"

definition scenario_graphe :: graphe_obj where
  "scenario_graphe = \<lparr>data = Some scenario_data,
                       periode = Some \<lparr>dateDebut = Some ''01/03/2024''\<rparr>,
                       decalage = Some 2\<rparr>"

definition scenario :: response where
  "scenario = \<lparr>graphe = Some scenario_graphe\<rparr>"

definition empty_fs :: filesystem where
  "empty_fs = \<lparr>contents = (\<lambda>p. None), denied = (\<lambda>p. False)\<rparr>"

definition no_floats :: "rat \<Rightarrow> string" where
  "no_floats r = []"

definition scenario_linky :: "nat linky" where
  "scenario_linky = \<lparr>login = (\<lambda>u p. Inr 0),
                      get_data_per_month = (\<lambda>t a b. Inr scenario),
                      get_data_per_day = (\<lambda>t a b. Inr scenario)\<rparr>"

definition scenario_globals :: globals where
  "scenario_globals = \<lparr>USERNAME = ''user'', PASSWORD = ''secret'', BASEDIR = ''/srv''\<rparr>"

section \<open>The four exporters as a table\<close>

text \<open>
  The four exporters differ only in the unit, the label pattern and the increment that they
  pass to \<^verbatim>\<open>generate_x_axis\<close> and in the name of the file they write. Each row lists these
  constants (source lines 80 to 81 and 87, 93 to 94 and 100, 110 to 111 and 117, 123 to 124
  and 130) next to the exporter that uses them.
\<close>

definition exporters ::
  "(delta_unit \<times> string \<times> rat \<times> string
    \<times> ((rat \<Rightarrow> string) \<Rightarrow> string \<Rightarrow> response \<Rightarrow> filesystem \<Rightarrow> (error + unit) \<times> filesystem)) list"
  where
  "exporters =
     [(Hours, ''%H:%M'', 1 / 2, ''/export_hours_values.json'', export_hours_values),
      (Days, ''%d %b %Y'', 1, ''/export_days_values.json'', export_days_values),
      (Months, ''%b'', 1, ''/export_months_values.json'', export_months_values),
      (Years, ''%Y'', 1, ''/export_years_values.json'', export_years_values)]"

text \<open>
  Variants of the scenario: no data points; no data points and an offset that leads before
  year 1; no data points and a start date that is not in day/month/year form.
\<close>

definition empty_scenario :: response where
  "empty_scenario = \<lparr>graphe = Some (scenario_graphe\<lparr>data := Some []\<rparr>)\<rparr>"

definition far_scenario :: response where
  "far_scenario = \<lparr>graphe = Some (scenario_graphe\<lparr>data := Some [], decalage := Some 800000\<rparr>)\<rparr>"

definition malformed_scenario :: response where
  "malformed_scenario =
     \<lparr>graphe = Some (scenario_graphe\<lparr>data := Some [],
                                        periode := Some \<lparr>dateDebut = Some ''2024-03-01''\<rparr>\<rparr>)\<rparr>"

section \<open>Ordinals and calendar dates\<close>

text \<open>
  \<^verbatim>\<open>_ord2ymd\<close> inverts \<^verbatim>\<open>_ymd2ord\<close>: the triple it returns for an ordinal is a date
  of the calendar whose ordinal is the one given. The proof follows the function: the
  ordinal is split into 400-year, 100-year, 4-year and 1-year cycles, and the day of the
  year is located by the month estimate, which is checked on each of the 365 offsets.
\<close>

lemma divmod_digit:
  fixes x q r d :: int
  assumes "x = d * q + r" "0 \<le> r" "r < d"
  shows "x div d = q" "x mod d = r"
  using assms by (auto simp: Euclidean_Rings.int_div_pos_eq Euclidean_Rings.int_mod_pos_eq)

lemma mod_zero_top:
  fixes x q r d :: int
  assumes "x = d * q + r" "0 < r" "r \<le> d"
  shows "x mod d = 0 \<longleftrightarrow> r = d"
proof (cases "r = d")
  case True
  then have "x = d * (q + 1) + 0" using assms(1) by (simp add: algebra_simps)
  then have "x mod d = 0" by simp
  with True show ?thesis by simp
next
  case False
  then have "r < d" using assms(3) by simp
  then have "x mod d = r" using assms by (intro divmod_digit(2) [where q = q]) auto
  with False assms(2) show ?thesis by simp
qed

lemma dby_digits:
  fixes a b c e :: int
  assumes "0 \<le> b" "b \<le> 3" "0 \<le> c" "c \<le> 24" "0 \<le> e" "e \<le> 3"
  shows "days_before_year (400 * a + 100 * b + 4 * c + e + 1)
         = 146097 * a + 36524 * b + 1461 * c + 365 * e"
proof -
  define Y where "Y = 400 * a + 100 * b + 4 * c + e"
  have d4: "Y div 4 = 100 * a + 25 * b + c"
    by (rule divmod_digit(1) [where r = e]) (use assms in \<open>auto simp: Y_def\<close>)
  have d100: "Y div 100 = 4 * a + b"
    by (rule divmod_digit(1) [where r = "4 * c + e"]) (use assms in \<open>auto simp: Y_def\<close>)
  have d400: "Y div 400 = a"
    by (rule divmod_digit(1) [where r = "100 * b + 4 * c + e"]) (use assms in \<open>auto simp: Y_def\<close>)
  have "days_before_year (Y + 1) = Y * 365 + Y div 4 - Y div 100 + Y div 400"
    by (simp add: days_before_year_def)
  also have "\<dots> = 146097 * a + 36524 * b + 1461 * c + 365 * e"
    unfolding d4 d100 d400 by (simp add: Y_def)
  finally show ?thesis by (simp add: Y_def)
qed

lemma leap_digits:
  fixes a b c e :: int
  assumes "0 \<le> b" "b \<le> 3" "0 \<le> c" "c \<le> 24" "0 \<le> e" "e \<le> 3"
  shows "is_leap (400 * a + 100 * b + 4 * c + e + 1) \<longleftrightarrow> e = 3 \<and> (c \<noteq> 24 \<or> b = 3)"
proof -
  define y where "y = 400 * a + 100 * b + 4 * c + e + 1"
  have "y mod 4 = 0 \<longleftrightarrow> e + 1 = 4"
    by (rule mod_zero_top [where q = "100 * a + 25 * b + c"]) (use assms in \<open>auto simp: y_def\<close>)
  then have m4: "y mod 4 = 0 \<longleftrightarrow> e = 3" by auto
  have "y mod 100 = 0 \<longleftrightarrow> 4 * c + e + 1 = 100"
    by (rule mod_zero_top [where q = "4 * a + b"]) (use assms in \<open>auto simp: y_def\<close>)
  moreover have "4 * c + e + 1 = 100 \<longleftrightarrow> c = 24 \<and> e = 3" using assms by arith
  ultimately have m100: "y mod 100 = 0 \<longleftrightarrow> c = 24 \<and> e = 3" by simp
  have "y mod 400 = 0 \<longleftrightarrow> 100 * b + 4 * c + e + 1 = 400"
    by (rule mod_zero_top [where q = a]) (use assms in \<open>auto simp: y_def\<close>)
  moreover have "100 * b + 4 * c + e + 1 = 400 \<longleftrightarrow> b = 3 \<and> c = 24 \<and> e = 3"
    using assms by arith
  ultimately have m400: "y mod 400 = 0 \<longleftrightarrow> b = 3 \<and> c = 24 \<and> e = 3" by simp
  show ?thesis
    unfolding y_def [symmetric] is_leap_def m4 m100 m400 by auto
qed


lemma month_estimate:
  "list_all (\<lambda>leapyear. list_all (\<lambda>n.
     (let month = (n + 50) div 32;
          preceding = DAYS_BEFORE_MONTH ! nat month
                             + (if month > 2 \<and> leapyear then 1 else 0);
          month' = (if preceding > n then month - 1 else month);
          preceding' = (if preceding > n
                             then preceding - (DAYS_IN_MONTH ! nat month'
                                               + (if month' = 2 \<and> leapyear then 1 else 0))
                             else preceding);
          day = n - preceding' + 1
      in 1 \<le> month' \<and> month' \<le> 12 \<and> 1 \<le> day
         \<and> day \<le> (if month' = 2 \<and> leapyear then 29 else DAYS_IN_MONTH ! nat month')
         \<and> DAYS_BEFORE_MONTH ! nat month' + (if month' > 2 \<and> leapyear then 1 else 0) + day
             = n + 1)) [0..364]) [True, False]"
  by code_simp

lemma month_estimate_at:
  fixes k :: int
  assumes "0 \<le> k" "k \<le> 364"
  shows "(let month = (k + 50) div 32;
          preceding = DAYS_BEFORE_MONTH ! nat month
                             + (if month > 2 \<and> leapyear then 1 else 0);
          month' = (if preceding > k then month - 1 else month);
          preceding' = (if preceding > k
                             then preceding - (DAYS_IN_MONTH ! nat month'
                                               + (if month' = 2 \<and> leapyear then 1 else 0))
                             else preceding);
          day = k - preceding' + 1
      in 1 \<le> month' \<and> month' \<le> 12 \<and> 1 \<le> day
         \<and> day \<le> (if month' = 2 \<and> leapyear then 29 else DAYS_IN_MONTH ! nat month')
         \<and> DAYS_BEFORE_MONTH ! nat month' + (if month' > 2 \<and> leapyear then 1 else 0) + day
             = k + 1)"
proof -
  have k: "k \<in> set [0..364]" using assms by simp
  have l: "leapyear \<in> set [True, False]" by auto
  show ?thesis
    using month_estimate [unfolded list_all_iff, rule_format, OF l, unfolded list_all_iff, rule_format, OF k] .
qed

lemma ord2ymd_unfold:
  assumes "a = (n - 1) div 146097" "R1 = (n - 1) mod 146097"
    "b = R1 div 36524" "R2 = R1 mod 36524"
    "c = R2 div 1461" "R3 = R2 mod 1461"
    "e = R3 div 365" "k = R3 mod 365"
  shows "ord2ymd n =
     (if e = 4 \<or> b = 4 then (a * 400 + 1 + (b * 100 + c * 4 + e) - 1, 12, 31)
         else
           let leapyear = (e = 3 \<and> (c \<noteq> 24 \<or> b = 3));
               month = (k + 50) div 32;
               preceding = DAYS_BEFORE_MONTH ! nat month
                             + (if month > 2 \<and> leapyear then 1 else 0);
               month' = (if preceding > k then month - 1 else month);
               preceding' = (if preceding > k
                             then preceding - (DAYS_IN_MONTH ! nat month'
                                               + (if month' = 2 \<and> leapyear then 1 else 0))
                             else preceding)
           in (a * 400 + 1 + (b * 100 + c * 4 + e), month', k - preceding' + 1))"
  unfolding assms ord2ymd_def Let_def DI400Y_def DI100Y_def DI4Y_def by (rule refl)


lemma ord2ymd_correct:
  assumes "ord2ymd n = (y, m, d)"
  shows "1 \<le> m \<and> m \<le> 12 \<and> 1 \<le> d \<and> d \<le> days_in_month y m \<and> ymd2ord y m d = n"
proof -
  define a where "a = (n - 1) div 146097"
  define R1 where "R1 = (n - 1) mod 146097"
  define b where "b = R1 div 36524"
  define R2 where "R2 = R1 mod 36524"
  define c where "c = R2 div 1461"
  define R3 where "R3 = R2 mod 1461"
  define e where "e = R3 div 365"
  define k where "k = R3 mod 365"
  note unf = ord2ymd_unfold [OF a_def R1_def b_def R2_def c_def R3_def e_def k_def]
  have A: "n = 146097 * a + R1 + 1" "0 \<le> R1" "R1 < 146097"
    by (simp_all add: a_def R1_def)
  have B: "R1 = 36524 * b + R2" "0 \<le> R2" "R2 < 36524"
    by (simp_all add: b_def R2_def)
  have C: "R2 = 1461 * c + R3" "0 \<le> R3" "R3 < 1461"
    by (simp_all add: c_def R3_def)
  have E: "R3 = 365 * e + k" "0 \<le> k" "k < 365"
    by (simp_all add: e_def k_def)
  have b_rng: "0 \<le> b" "b \<le> 4" using A B by arith+
  have c_rng: "0 \<le> c" "c \<le> 24" using B C by arith+
  have e_rng: "0 \<le> e" "e \<le> 4" using C E by arith+
  consider (b4) "b = 4" | (e4) "b \<le> 3" "e = 4" | (norm) "b \<le> 3" "e \<le> 3"
    using b_rng e_rng by arith
  then show ?thesis
  proof cases
    case b4
    have "R2 = 0" using A B b4 by arith
    then have z: "c = 0" "e = 0" using C E c_rng e_rng by arith+
    have "ord2ymd n = (a * 400 + 400, 12, 31)"
      unfolding unf using b4 z by simp
    with assms have ymd: "y = 400 * a + 100 * 3 + 4 * 24 + 3 + 1" "m = 12" "d = 31" by simp_all
    have dby: "days_before_year y = 146097 * a + 36524 * 3 + 1461 * 24 + 365 * 3"
      unfolding ymd by (rule dby_digits) simp_all
    have lp: "is_leap y"
      unfolding ymd by (subst leap_digits) simp_all
    have n: "n = 146097 * a + 146097" using A B b4 \<open>R2 = 0\<close> by simp
    show ?thesis
      using dby lp n
      by (simp add: ymd(2,3) ymd2ord_def days_in_month_def days_before_month_def
          DAYS_IN_MONTH_def DAYS_BEFORE_MONTH_def)
  next
    case e4
    have k0: "k = 0" using C E e4 by arith
    have c23: "c \<le> 23" using B C E e4 k0 by arith
    have "ord2ymd n = (a * 400 + 1 + (b * 100 + c * 4 + 4) - 1, 12, 31)"
      unfolding unf using e4 by simp
    with assms have ymd: "y = 400 * a + 100 * b + 4 * c + 3 + 1" "m = 12" "d = 31" by simp_all
    have dby: "days_before_year y = 146097 * a + 36524 * b + 1461 * c + 365 * 3"
      unfolding ymd using b_rng e4(1) c_rng by (intro dby_digits) simp_all
    have "is_leap y \<longleftrightarrow> (3::int) = 3 \<and> (c \<noteq> 24 \<or> b = 3)"
      unfolding ymd using b_rng e4(1) c_rng by (intro leap_digits) simp_all
    then have lp: "is_leap y" using c23 by simp
    have n: "n = 146097 * a + 36524 * b + 1461 * c + 1461" using A B C E e4 k0 by simp
    show ?thesis
      using dby lp n
      by (simp add: ymd(2,3) ymd2ord_def days_in_month_def days_before_month_def
          DAYS_IN_MONTH_def DAYS_BEFORE_MONTH_def)
  next
    case norm
    define leapyear where "leapyear \<longleftrightarrow> e = 3 \<and> (c \<noteq> 24 \<or> b = 3)"
    define month where "month = (k + 50) div 32"
    define preceding where "preceding = DAYS_BEFORE_MONTH ! nat month
                             + (if month > 2 \<and> leapyear then 1 else 0)"
    define month' where "month' = (if preceding > k then month - 1 else month)"
    define preceding' where "preceding' = (if preceding > k
                             then preceding - (DAYS_IN_MONTH ! nat month'
                                               + (if month' = 2 \<and> leapyear then 1 else 0))
                             else preceding)"
    have k364: "k \<le> 364" using E(3) by simp
    have ne4: "\<not> (e = 4 \<or> b = 4)" using norm by simp
    have "ord2ymd n = (a * 400 + 1 + (b * 100 + c * 4 + e), month', k - preceding' + 1)"
      unfolding unf if_not_P [OF ne4] Let_def
      unfolding preceding'_def month'_def preceding_def month_def leapyear_def by (rule refl)
    with assms have ymd: "y = 400 * a + 100 * b + 4 * c + e + 1" "m = month'"
      "d = k - preceding' + 1" by simp_all
    have est: "1 \<le> month' \<and> month' \<le> 12 \<and> 1 \<le> k - preceding' + 1
         \<and> k - preceding' + 1 \<le> (if month' = 2 \<and> leapyear then 29 else DAYS_IN_MONTH ! nat month')
         \<and> DAYS_BEFORE_MONTH ! nat month' + (if month' > 2 \<and> leapyear then 1 else 0)
             + (k - preceding' + 1) = k + 1"
      unfolding preceding'_def month'_def preceding_def month_def
      using month_estimate_at [OF E(2) k364, of leapyear] unfolding Let_def .
    have dby: "days_before_year y = 146097 * a + 36524 * b + 1461 * c + 365 * e"
      unfolding ymd using b_rng norm c_rng e_rng by (intro dby_digits) simp_all
    have lp: "is_leap y \<longleftrightarrow> leapyear"
      unfolding ymd leapyear_def using b_rng norm c_rng e_rng by (intro leap_digits) simp_all
    have n: "n = 146097 * a + 36524 * b + 1461 * c + 365 * e + k + 1" using A B C E by simp
    show ?thesis
      using est dby n
      by (simp add: ymd(2,3) lp ymd2ord_def days_in_month_def days_before_month_def)
  qed
qed


lemma month_cases:
  fixes m :: int
  assumes "1 \<le> m" "m \<le> 12"
  shows "m = 1 \<or> m = 2 \<or> m = 3 \<or> m = 4 \<or> m = 5 \<or> m = 6 \<or> m = 7 \<or> m = 8 \<or> m = 9
         \<or> m = 10 \<or> m = 11 \<or> m = 12"
  using assms by arith

lemma day_of_year_bounds:
  assumes "1 \<le> m" "m \<le> 12"
  shows "0 \<le> days_before_month y m
         \<and> days_before_month y m + days_in_month y m \<le> 365 + (if is_leap y then 1 else 0)"
  using month_cases [OF assms]
  by (auto simp: days_before_month_def days_in_month_def DAYS_IN_MONTH_def DAYS_BEFORE_MONTH_def)

lemma dby_expand:
  obtains q4 r4 q100 r100 q400 r400 :: int where
    "days_before_year y = (y - 1) * 365 + q4 - q100 + q400"
    "y - 1 = 4 * q4 + r4" "0 \<le> r4" "r4 < 4"
    "y - 1 = 100 * q100 + r100" "0 \<le> r100" "r100 < 100"
    "y - 1 = 400 * q400 + r400" "0 \<le> r400" "r400 < 400"
proof
  show "days_before_year y = (y - 1) * 365 + (y - 1) div 4 - (y - 1) div 100 + (y - 1) div 400"
    by (simp add: days_before_year_def Let_def)
  show "y - 1 = 4 * ((y - 1) div 4) + (y - 1) mod 4" by simp
  show "y - 1 = 100 * ((y - 1) div 100) + (y - 1) mod 100" by simp
  show "y - 1 = 400 * ((y - 1) div 400) + (y - 1) mod 400" by simp
qed simp_all

lemma dby_nonpos:
  assumes "y \<le> 0"
  shows "days_before_year y + 366 \<le> 0"
proof (rule dby_expand [of y])
  fix q4 r4 q100 r100 q400 r400 :: int
  assume h: "days_before_year y = (y - 1) * 365 + q4 - q100 + q400"
    "y - 1 = 4 * q4 + r4" "0 \<le> r4" "r4 < 4"
    "y - 1 = 100 * q100 + r100" "0 \<le> r100" "r100 < 100"
    "y - 1 = 400 * q400 + r400" "0 \<le> r400" "r400 < 400"
  have "4 * q4 < 0" using h(2,3) assms by simp
  then have a: "q4 \<le> - 1" by simp
  have "400 * q400 < 0" using h(8,9) assms by simp
  then have b: "q400 \<le> - 1" by simp
  have "100 * q100 > 100 * (y - 1) - 100" using h(5,7) assms by simp
  then have c: "y - 1 \<le> q100" by simp
  show ?thesis using h(1) a b c assms by simp
qed

lemma dby_large:
  assumes "10000 \<le> y"
  shows "3652059 \<le> days_before_year y"
proof (rule dby_expand [of y])
  fix q4 r4 q100 r100 q400 r400 :: int
  assume h: "days_before_year y = (y - 1) * 365 + q4 - q100 + q400"
    "y - 1 = 4 * q4 + r4" "0 \<le> r4" "r4 < 4"
    "y - 1 = 100 * q100 + r100" "0 \<le> r100" "r100 < 100"
    "y - 1 = 400 * q400 + r400" "0 \<le> r400" "r400 < 400"
  have "4 * q4 > 4 * 2498" using h(2,4) assms by simp
  then have a: "2499 \<le> q4" by simp
  have "400 * q400 > 400 * 23" using h(8,10) assms by simp
  then have b: "24 \<le> q400" by simp
  define z where "z = y - 1 - q100"
  have "100 * z = 99 * (y - 1) + r100" using h(5) by (simp add: z_def)
  then have "100 * z > 100 * 9899" using h(6) assms by simp
  then have c: "9900 \<le> z" by simp
  have "days_before_year y = 364 * (y - 1) + z + q4 + q400" using h(1) by (simp add: z_def)
  then show ?thesis using a b c assms by simp
qed

lemma year_range:
  assumes "ymd2ord y m d = n" "1 \<le> m" "m \<le> 12" "1 \<le> d" "d \<le> days_in_month y m"
    "0 < n" "n \<le> MAXORDINAL"
  shows "MINYEAR \<le> y \<and> y \<le> MAXYEAR"
proof -
  have b: "0 \<le> days_before_month y m"
    "days_before_month y m + days_in_month y m \<le> 365 + (if is_leap y then 1 else 0)"
    using day_of_year_bounds [OF assms(2,3)] by simp_all
  have lo: "days_before_year y < n" using assms(1,4) b(1) by (simp add: ymd2ord_def)
  have hi: "n \<le> days_before_year y + 366"
    using assms(1,5) b(2) by (simp add: ymd2ord_def split: if_splits)
  have "\<not> y \<le> 0"
  proof
    assume "y \<le> 0"
    from dby_nonpos [OF this] hi assms(6) show False by simp
  qed
  moreover have "\<not> 10000 \<le> y"
  proof
    assume "10000 \<le> y"
    from dby_large [OF this] lo assms(7) show False by (simp add: MAXORDINAL_def)
  qed
  ultimately show ?thesis by (simp add: MINYEAR_def MAXYEAR_def)
qed

lemma ord2ymd_check:
  assumes "ord2ymd n = (y, m, d)" "0 < n" "n \<le> MAXORDINAL"
  shows "check_date_fields y m d" "ymd2ord y m d = n"
proof -
  have c: "1 \<le> m \<and> m \<le> 12 \<and> 1 \<le> d \<and> d \<le> days_in_month y m \<and> ymd2ord y m d = n"
    by (rule ord2ymd_correct [OF assms(1)])
  then show "ymd2ord y m d = n" by simp
  have "MINYEAR \<le> y \<and> y \<le> MAXYEAR"
    by (rule year_range [where n = n and m = m and d = d]) (use c assms in simp_all)
  with c show "check_date_fields y m d" by (simp add: check_date_fields_def)
qed

section \<open>Dates that date arithmetic returns\<close>

text \<open>
  Every date that \<^verbatim>\<open>date + timedelta\<close> or \<^verbatim>\<open>datetime + timedelta\<close> returns is valid and
  is read back unchanged from its ordinal; adding the zero \<^verbatim>\<open>relativedelta\<close> to such a
  date returns it.
\<close>

lemma monthrange_days_in_month:
  assumes "1 \<le> m" "m \<le> 12"
  shows "monthrange y m = Inr (days_in_month y m)"
  using month_cases [OF assms]
  by (auto simp: monthrange_def days_in_month_def mdays_def DAYS_IN_MONTH_def isleap_def is_leap_def)

lemma timedelta_of_zero: "timedelta_of 0 0 = Inr \<lparr>td_days = 0, td_seconds = 0, td_microseconds = 0\<rparr>"
  by (simp add: timedelta_of_def py_round_def normalize_timedelta_def)

lemma relativedelta_kwargs_zero:
  "relativedelta_kwargs u 0 = Inr \<lparr>years = 0, months = 0, days = 0, hours = 0\<rparr>"
  by (cases u) (simp_all add: relativedelta_def py_int_def rd_fix_def)

lemma hms_digits:
  fixes hh mm ss :: int
  assumes "0 \<le> hh" "0 \<le> mm" "mm < 60" "0 \<le> ss" "ss < 60"
  shows "(hh * 3600 + mm * 60 + ss) div 3600 = hh"
    "((hh * 3600 + mm * 60 + ss) mod 3600) div 60 = mm"
    "((hh * 3600 + mm * 60 + ss) mod 3600) mod 60 = ss"
proof -
  have a: "(hh * 3600 + mm * 60 + ss) div 3600 = hh" "(hh * 3600 + mm * 60 + ss) mod 3600 = mm * 60 + ss"
    by (rule divmod_digit [where r = "mm * 60 + ss"]; use assms in simp)+
  have b: "(mm * 60 + ss) div 60 = mm" "(mm * 60 + ss) mod 60 = ss"
    by (rule divmod_digit [where r = ss]; use assms in simp)+
  show "(hh * 3600 + mm * 60 + ss) div 3600 = hh" by (rule a)
  show "((hh * 3600 + mm * 60 + ss) mod 3600) div 60 = mm" unfolding a b by simp
  show "((hh * 3600 + mm * 60 + ss) mod 3600) mod 60 = ss" unfolding a b by simp
qed

lemma rd_add_zero:
  assumes v: "valid_pydate r" and lo: "0 < toordinal r" and hi: "toordinal r \<le> MAXORDINAL"
    and rt: "ord2ymd (toordinal r) = (year_of r, month_of r, day_of r)"
  shows "rd_add \<lparr>years = 0, months = 0, days = 0, hours = 0\<rparr> r = Inr r"
proof (cases r)
  case (Date y m d)
  have c: "check_date_fields y m d" using v Date by simp
  then have m: "1 \<le> m" "m \<le> 12" and d: "d \<le> days_in_month y m"
    by (simp_all add: check_date_fields_def)
  have mr: "monthrange y m = Inr (days_in_month y m)" by (rule monthrange_days_in_month [OF m])
  have fo: "fromordinal (ymd2ord y m d) = Date y m d"
    using rt Date by (simp add: fromordinal_def)
  show ?thesis
    using c d lo hi fo
    by (simp add: Date rd_add_def has_time_def mr min_def timedelta_of_zero)
next
  case (DateTime y m d hh mm ss us)
  have c: "check_date_fields y m d" and t: "0 \<le> hh" "hh < 24" "0 \<le> mm" "mm < 60"
    "0 \<le> ss" "ss < 60" "0 \<le> us" "us < 1000000"
    using v DateTime by simp_all
  then have m: "1 \<le> m" "m \<le> 12" and d: "d \<le> days_in_month y m"
    by (simp_all add: check_date_fields_def)
  have mr: "monthrange y m = Inr (days_in_month y m)" by (rule monthrange_days_in_month [OF m])
  have s: "0 \<le> hh * 3600 + mm * 60 + ss" "hh * 3600 + mm * 60 + ss < 86400"
    using t by simp_all
  have o: "0 < ymd2ord y m d" "ymd2ord y m d \<le> MAXORDINAL" "ord2ymd (ymd2ord y m d) = (y, m, d)"
    using lo hi rt DateTime by simp_all
  have nt: "normalize_timedelta (ymd2ord y m d) (hh * 3600 + mm * 60 + ss) us
            = Inr \<lparr>td_days = ymd2ord y m d, td_seconds = hh * 3600 + mm * 60 + ss,
                   td_microseconds = us\<rparr>"
    using t(7,8) s o(1,2) by (simp add: normalize_timedelta_def MAXORDINAL_def)
  show ?thesis
    using c d o hms_digits [OF t(1,3,4,5,6)]
    by (simp add: DateTime rd_add_def has_time_def mr min_def timedelta_of_zero nt)
qed

lemma add_timedelta_stable:
  assumes "add_timedelta x td = Inr r"
  shows "valid_pydate r \<and> 0 < toordinal r \<and> toordinal r \<le> MAXORDINAL
         \<and> ord2ymd (toordinal r) = (year_of r, month_of r, day_of r)"
proof (cases x)
  case (Date y m d)
  define n where "n = ymd2ord y m d + td_days td"
  from assms Date have n: "0 < n" "n \<le> MAXORDINAL" and r: "r = fromordinal n"
    by (simp_all add: n_def Let_def split: if_splits)
  obtain y' m' d' where o: "ord2ymd n = (y', m', d')" by (cases "ord2ymd n") auto
  have r': "r = Date y' m' d'" using r o by (simp add: fromordinal_def)
  from ord2ymd_check [OF o n] show ?thesis by (simp add: r' n o)
next
  case (DateTime y m d hh mm ss us)
  from assms DateTime obtain delta where
    nt: "normalize_timedelta (ymd2ord y m d + td_days td)
             (hh * 3600 + mm * 60 + ss + td_seconds td) (us + td_microseconds td) = Inr delta"
    by (auto split: sum.splits)
  define n where "n = td_days delta"
  from assms DateTime nt have n: "0 < n" "n \<le> MAXORDINAL"
    by (simp_all add: n_def Let_def split: if_splits prod.splits)
  obtain y' m' d' where o: "ord2ymd n = (y', m', d')" by (cases "ord2ymd n") auto
  have r': "r = DateTime y' m' d' (td_seconds delta div 3600) (td_seconds delta mod 3600 div 60)
                 (td_seconds delta mod 3600 mod 60) (td_microseconds delta)"
    using assms DateTime nt n o by (simp add: Let_def n_def)
  have rng: "0 \<le> td_seconds delta" "td_seconds delta < 86400"
    "0 \<le> td_microseconds delta" "td_microseconds delta < 1000000"
    using nt by (auto simp: normalize_timedelta_def Let_def split: if_splits)
  have h: "0 \<le> td_seconds delta div 3600" "td_seconds delta div 3600 < 24"
    using rng(1,2) by simp_all
  have "0 \<le> td_seconds delta mod 3600" "td_seconds delta mod 3600 < 3600" by simp_all
  then have mi: "0 \<le> td_seconds delta mod 3600 div 60" "td_seconds delta mod 3600 div 60 < 60"
    by simp_all
  from ord2ymd_check [OF o n] h mi rng(3,4) show ?thesis by (simp add: r' n o)
qed

lemma rd_add_stable:
  assumes "rd_add delta x = Inr r"
  shows "valid_pydate r \<and> 0 < toordinal r \<and> toordinal r \<le> MAXORDINAL
         \<and> ord2ymd (toordinal r) = (year_of r, month_of r, day_of r)"
proof -
  from assms obtain repl td where "add_timedelta repl td = Inr r"
    unfolding rd_add_def Let_def by (auto split: sum.splits)
  then show ?thesis by (rule add_timedelta_stable)
qed

section \<open>The loops of the axis generators and of the pairing\<close>

lemma list_insert_end: "list_insert (length xs) x xs = xs @ [x]"
  by (simp add: list_insert_def)

text \<open>
  When every data point has a value, the loop of \<^verbatim>\<open>generate_y_axis\<close> appends the clamped
  values to what it has collected, in order.
\<close>

lemma y_loop_map:
  "map valeur ds = map Some vs \<Longrightarrow>
   y_loop (length acc) ds acc = Inr (acc @ map (\<lambda>v. if lt_zero v then PyInt 0 else v) vs)"
proof (induction ds arbitrary: vs acc)
  case Nil
  then show ?case by simp
next
  case (Cons d ds)
  then obtain v vs' where vs: "vs = v # vs'" and v: "valeur d = Some v"
    and rest: "map valeur ds = map Some vs'"
    by (cases vs) auto
  have "y_loop (length (acc @ [if lt_zero v then PyInt 0 else v])) ds
          (acc @ [if lt_zero v then PyInt 0 else v])
        = Inr ((acc @ [if lt_zero v then PyInt 0 else v])
                 @ map (\<lambda>v. if lt_zero v then PyInt 0 else v) vs')"
    by (rule Cons.IH [OF rest])
  then show ?case
    by (simp add: vs v getitem_def list_insert_end Let_def)
qed

lemma y_loop_Inr_values:
  "y_loop n ds acc = Inr ys \<Longrightarrow> \<exists>vs. map valeur ds = map Some vs"
proof (induction ds arbitrary: n acc)
  case Nil
  then show ?case by simp
next
  case (Cons d ds)
  from Cons.prems obtain v where v: "valeur d = Some v"
    by (cases "valeur d") (simp_all add: getitem_def)
  from Cons.prems v obtain acc' where "y_loop (n + 1) ds acc' = Inr ys"
    by (simp add: getitem_def Let_def)
  from Cons.IH [OF this] obtain vs where "map valeur ds = map Some vs" ..
  with v have "map valeur (d # ds) = map Some (v # vs)" by simp
  then show ?case by blast
qed

lemma generate_y_axis_map:
  assumes "graphe res = Some g" "data g = Some ds" "map valeur ds = map Some vs"
  shows "generate_y_axis res = Inr (map (\<lambda>v. if lt_zero v then PyInt 0 else v) vs)"
  using y_loop_map [OF assms(3), of "[]"] assms(1,2)
  by (simp add: generate_y_axis_def getitem_def)

lemma generate_y_axis_length:
  assumes "generate_y_axis res = Inr ys" "graphe res = Some g" "data g = Some ds"
  shows "length ys = length ds"
proof -
  from assms have "y_loop 0 ds [] = Inr ys"
    by (simp add: generate_y_axis_def getitem_def)
  from y_loop_Inr_values [OF this] obtain vs where vs: "map valeur ds = map Some vs" ..
  from generate_y_axis_map [OF assms(2,3) vs] assms(1)
  have "ys = map (\<lambda>v. if lt_zero v then PyInt 0 else v) vs" by simp
  moreover have "length vs = length ds" using vs by (metis length_map)
  ultimately show ?thesis by simp
qed

text \<open>
  What a successful run of the loop of \<^verbatim>\<open>generate_x_axis\<close> has produced: one label per
  data point, each the formatted sum of the start date and \<^verbatim>\<open>ordre * inc\<close> units.
\<close>

lemma x_loop_spec:
  "x_loop u f inc s (length acc) ds acc = Inr xs \<Longrightarrow>
   length xs = length acc + length ds \<and> take (length acc) xs = acc \<and>
   (\<forall>i < length ds. \<exists>delta t.
       relativedelta_kwargs u (of_nat (length acc + i) * inc) = Inr delta \<and>
       rd_add delta s = Inr t \<and> xs ! (length acc + i) = strftime t f)"
proof (induction ds arbitrary: acc)
  case Nil
  then show ?case by simp
next
  case (Cons d ds)
  from Cons.prems obtain delta t where
    delta: "relativedelta_kwargs u (of_nat (length acc) * inc) = Inr delta"
    and t: "rd_add delta s = Inr t"
    and rest: "x_loop u f inc s (length (acc @ [strftime t f])) ds (acc @ [strftime t f]) = Inr xs"
    by (auto simp: list_insert_end split: sum.splits)
  from Cons.IH [OF rest]
  have len: "length xs = length (acc @ [strftime t f]) + length ds"
    and tk: "take (length (acc @ [strftime t f])) xs = acc @ [strftime t f]"
    and ih: "\<forall>i < length ds. \<exists>delta t'.
       relativedelta_kwargs u (of_nat (length (acc @ [strftime t f]) + i) * inc) = Inr delta \<and>
       rd_add delta s = Inr t' \<and> xs ! (length (acc @ [strftime t f]) + i) = strftime t' f"
    by blast+
  have l1: "length xs = length acc + length (d # ds)" using len by simp
  have "take (length acc) (take (length (acc @ [strftime t f])) xs) = acc"
    unfolding tk by simp
  then have l2: "take (length acc) xs = acc" by (simp add: min_def)
  have x0: "xs ! length acc = strftime t f"
  proof -
    have "length acc < length (acc @ [strftime t f])" by simp
    then have "xs ! length acc = take (length (acc @ [strftime t f])) xs ! length acc"
      by (metis nth_take)
    then show ?thesis unfolding tk by simp
  qed
  have l3: "\<exists>delta t'.
       relativedelta_kwargs u (of_nat (length acc + i) * inc) = Inr delta \<and>
       rd_add delta s = Inr t' \<and> xs ! (length acc + i) = strftime t' f"
    if "i < length (d # ds)" for i
  proof (cases i)
    case 0
    then show ?thesis using delta t x0 by auto
  next
    case (Suc j)
    with that have "j < length ds" by simp
    with ih show ?thesis using Suc by (simp add: add.commute add.left_commute)
  qed
  show ?case using l1 l2 l3 by blast
qed

text \<open>The pairing loop: it succeeds exactly when every index it visits exists in both lists.\<close>

lemma append_loop_ok:
  "\<forall>i \<in> set idx. i < length xs \<and> i < length ys \<Longrightarrow>
   append_loop idx xs ys acc = Inr (acc @ map (\<lambda>i. \<lparr>time = xs ! i, conso = ys ! i\<rparr>) idx)"
  by (induction idx arbitrary: acc) (simp_all add: list_getitem_def)

lemma append_loop_fail:
  "\<forall>i \<in> set idx. i < length xs \<Longrightarrow> \<exists>i \<in> set idx. \<not> i < length ys \<Longrightarrow>
   append_loop idx xs ys acc = Inl IndexError"
  by (induction idx arbitrary: acc) (auto simp: list_getitem_def)

lemma pair_records_le:
  assumes "length xs \<le> length ys"
  shows "pair_records xs ys = Inr (map (\<lambda>(t, c). \<lparr>time = t, conso = c\<rparr>) (zip xs ys))"
proof -
  have "append_loop [0..<length xs] xs ys [] =
        Inr ([] @ map (\<lambda>i. \<lparr>time = xs ! i, conso = ys ! i\<rparr>) [0..<length xs])"
    by (rule append_loop_ok) (use assms in auto)
  moreover have "map (\<lambda>i. \<lparr>time = xs ! i, conso = ys ! i\<rparr>) [0..<length xs]
                 = map (\<lambda>(t, c). \<lparr>time = t, conso = c\<rparr>) (zip xs ys)"
    using assms by (intro nth_equalityI) simp_all
  ultimately show ?thesis by (simp add: pair_records_def)
qed

lemma pair_records_gt:
  assumes "length ys < length xs"
  shows "pair_records xs ys = Inl IndexError"
  unfolding pair_records_def
proof (rule append_loop_fail)
  show "\<forall>i\<in>set [0..<length xs]. i < length xs" by simp
  show "\<exists>i\<in>set [0..<length xs]. \<not> i < length ys"
    using assms by (intro bexI [of _ "length ys"]) simp_all
qed

section \<open>The value extractor\<close>

text \<open>
  C3. For every response whose data points all carry a value, \<^verbatim>\<open>generate_y_axis\<close>
  returns a list as long as \<^verbatim>\<open>graphe.data\<close> whose element at each position \<open>i\<close> is
  the integer 0 when the raw value at \<open>i\<close> is negative and the raw value itself, unchanged,
  otherwise: order and count are preserved.
\<close>

theorem generate_y_axis_clamps:
  assumes "graphe res = Some g" and "data g = Some ds" and "map valeur ds = map Some vs"
  shows "\<exists>ys. generate_y_axis res = Inr ys \<and> length ys = length ds
             \<and> (\<forall>i < length ds. ys ! i = (if lt_zero (vs ! i) then PyInt 0 else vs ! i))"
proof -
  have len: "length vs = length ds" using assms(3) by (metis length_map)
  have "generate_y_axis res = Inr (map (\<lambda>v. if lt_zero v then PyInt 0 else v) vs)"
    by (rule generate_y_axis_map [OF assms])
  then show ?thesis using len by simp
qed

theorem generate_y_axis_clamps_witness:
  "\<exists>ys. generate_y_axis scenario = Inr ys \<and> length ys = length scenario_data
        \<and> (\<forall>i < length scenario_data.
              ys ! i = (if lt_zero ([PyInt (- 5), PyInt 10, PyInt 20] ! i) then PyInt 0
                        else [PyInt (- 5), PyInt 10, PyInt 20] ! i))"
proof -
  have h1: "graphe scenario = Some scenario_graphe" by (simp add: scenario_def)
  have h2: "data scenario_graphe = Some scenario_data" by (simp add: scenario_graphe_def)
  have h3: "map valeur scenario_data = map Some [PyInt (- 5), PyInt 10, PyInt 20]"
    by (simp add: scenario_data_def)
  show ?thesis by (rule generate_y_axis_clamps [OF h1 h2 h3])
qed

section \<open>The record pairer\<close>

text \<open>
  C7, as stated, fails: the pairing loop has no length check. With one label and two values
  the lengths differ and the loop returns one record instead of failing.
\<close>

theorem pair_records_longer_values_counterexample:
  "length [''27 Feb 2024''] \<noteq> length [PyInt 1, PyInt 2]
   \<and> pair_records [''27 Feb 2024''] [PyInt 1, PyInt 2]
       = Inr [\<lparr>time = ''27 Feb 2024'', conso = PyInt 1\<rparr>]"
  by (simp add: pair_records_def list_getitem_def)

text \<open>
  C7, amended. The pairing loop runs over the indices of the label sequence. When the value
  sequence is shorter than the label sequence it fails with \<^verbatim>\<open>IndexError\<close>; when the
  value sequence is at least as long, it does not fail and pairs each label with the value
  at the same index, ignoring the values beyond the last label.
\<close>

theorem pair_records_lengths:
  "(length y_values < length x_values \<longrightarrow> pair_records x_values y_values = Inl IndexError)
   \<and> (length x_values \<le> length y_values \<longrightarrow>
        pair_records x_values y_values
          = Inr (map (\<lambda>(t, c). \<lparr>time = t, conso = c\<rparr>) (zip x_values y_values)))"
  using pair_records_gt pair_records_le by blast

theorem pair_records_lengths_witness:
  "pair_records [''a'', ''b''] [PyInt 1] = Inl IndexError
   \<and> pair_records [''a''] [PyInt 1, PyInt 2] = Inr [\<lparr>time = ''a'', conso = PyInt 1\<rparr>]"
proof -
  have "length [PyInt 1] < length [''a'', ''b'']" by simp
  with pair_records_lengths [where x_values = "[''a'', ''b'']" and y_values = "[PyInt 1]"]
  have a: "pair_records [''a'', ''b''] [PyInt 1] = Inl IndexError" by blast
  have "length [''a''] \<le> length [PyInt 1, PyInt 2]" by simp
  with pair_records_lengths [where x_values = "[''a'']" and y_values = "[PyInt 1, PyInt 2]"]
  have b: "pair_records [''a''] [PyInt 1, PyInt 2]
           = Inr (map (\<lambda>(t, c). \<lparr>time = t, conso = c\<rparr>) (zip [''a''] [PyInt 1, PyInt 2]))"
    by blast
  from a b show ?thesis by simp
qed

section \<open>The time axis generator\<close>

text \<open>Conversely, the loop succeeds when every instant it needs can be computed.\<close>

lemma x_loop_complete:
  assumes "length ys = length ds"
    and "\<forall>i < length ds. \<exists>delta t.
       relativedelta_kwargs u (of_nat (length acc + i) * inc) = Inr delta \<and>
       rd_add delta s = Inr t \<and> ys ! i = strftime t f"
  shows "x_loop u f inc s (length acc) ds acc = Inr (acc @ ys)"
  using assms
proof (induction ds arbitrary: acc ys)
  case Nil
  then show ?case by simp
next
  case (Cons d ds)
  from Cons.prems(1) obtain y ys' where ys: "ys = y # ys'" and len: "length ys' = length ds"
    by (cases ys) auto
  from Cons.prems(2) [rule_format, of 0] obtain delta t where
    delta: "relativedelta_kwargs u (of_nat (length acc) * inc) = Inr delta"
    and t: "rd_add delta s = Inr t" and y: "y = strftime t f"
    by (auto simp: ys)
  have step: "\<forall>i < length ds. \<exists>delta t.
       relativedelta_kwargs u (of_nat (length (acc @ [y]) + i) * inc) = Inr delta \<and>
       rd_add delta s = Inr t \<and> ys' ! i = strftime t f"
  proof (intro allI impI)
    fix i assume "i < length ds"
    then have "Suc i < length (d # ds)" by simp
    from Cons.prems(2) [rule_format, OF this] show "\<exists>delta t.
       relativedelta_kwargs u (of_nat (length (acc @ [y]) + i) * inc) = Inr delta \<and>
       rd_add delta s = Inr t \<and> ys' ! i = strftime t f"
      by (simp add: ys)
  qed
  have "x_loop u f inc s (length (acc @ [y])) ds (acc @ [y]) = Inr ((acc @ [y]) @ ys')"
    by (rule Cons.IH [OF len step])
  then show ?case by (simp add: delta t y ys list_insert_end)
qed

text \<open>
  C1. Take a response whose \<^verbatim>\<open>dateDebut\<close> parses (day/month/year) to \<open>d0\<close>, whose
  \<^verbatim>\<open>decalage\<close> is the integer \<open>dec\<close> and whose data has \<open>n\<close> points, and any unit \<open>u\<close>,
  label pattern and increment \<open>inc\<close>. The labels \<open>xs\<close> are the time axis that
  \<^verbatim>\<open>generate_x_axis\<close> returns exactly when the start instant
  \<open>start = d0 - relativedelta(u = dec * inc)\<close> exists, \<open>xs\<close> has length \<open>n\<close> and for every
  \<open>i < n\<close> the label \<open>xs ! i\<close> is the instant \<open>start + relativedelta(u = i * inc)\<close>
  formatted with the pattern; in that case the first label is the formatted start instant.
\<close>

theorem generate_x_axis_labels:
  assumes "graphe res = Some g" and "periode g = Some p" and "dateDebut p = Some s"
    and "strptime_date s = Inr d0" and "decalage g = Some dec" and "data g = Some ds"
  shows "generate_x_axis res u fmt inc = Inr xs \<longleftrightarrow>
     (\<exists>delta start.
        relativedelta_kwargs u (of_int dec * inc) = Inr delta \<and> rd_rsub delta d0 = Inr start
        \<and> length xs = length ds
        \<and> (\<forall>i < length ds. \<exists>di t.
              relativedelta_kwargs u (of_nat i * inc) = Inr di \<and> rd_add di start = Inr t
              \<and> xs ! i = strftime t fmt)
        \<and> (ds \<noteq> [] \<longrightarrow> xs ! 0 = strftime start fmt))"
proof
  assume gx: "generate_x_axis res u fmt inc = Inr xs"
  from gx assms obtain delta start where
    delta: "relativedelta_kwargs u (of_int dec * inc) = Inr delta"
    and start: "rd_rsub delta d0 = Inr start"
    and loop: "x_loop u fmt inc start 0 ds [] = Inr xs"
    by (auto simp: generate_x_axis_def getitem_def split: sum.splits)
  from x_loop_spec [of u fmt inc start "[]" ds xs] loop
  have len: "length xs = length ds"
    and lab: "\<forall>i < length ds. \<exists>di t.
              relativedelta_kwargs u (of_nat i * inc) = Inr di \<and> rd_add di start = Inr t
              \<and> xs ! i = strftime t fmt"
    by simp_all
  have first: "xs ! 0 = strftime start fmt" if "ds \<noteq> []"
  proof -
    from that have "0 < length ds" by simp
    with lab obtain di t where
      di: "relativedelta_kwargs u (of_nat 0 * inc) = Inr di" and t: "rd_add di start = Inr t"
      and x: "xs ! 0 = strftime t fmt"
      by blast
    have di0: "di = \<lparr>years = 0, months = 0, days = 0, hours = 0\<rparr>"
      using di relativedelta_kwargs_zero [of u] by simp
    have st: "valid_pydate start \<and> 0 < toordinal start \<and> toordinal start \<le> MAXORDINAL
         \<and> ord2ymd (toordinal start) = (year_of start, month_of start, day_of start)"
      using start unfolding rd_rsub_def by (rule rd_add_stable)
    have "rd_add \<lparr>years = 0, months = 0, days = 0, hours = 0\<rparr> start = Inr start"
      using st by (intro rd_add_zero) simp_all
    with t di0 have "t = start" by simp
    with x show ?thesis by simp
  qed
  show "\<exists>delta start.
        relativedelta_kwargs u (of_int dec * inc) = Inr delta \<and> rd_rsub delta d0 = Inr start
        \<and> length xs = length ds
        \<and> (\<forall>i < length ds. \<exists>di t.
              relativedelta_kwargs u (of_nat i * inc) = Inr di \<and> rd_add di start = Inr t
              \<and> xs ! i = strftime t fmt)
        \<and> (ds \<noteq> [] \<longrightarrow> xs ! 0 = strftime start fmt)"
    using delta start len lab first by blast
next
  assume "\<exists>delta start.
        relativedelta_kwargs u (of_int dec * inc) = Inr delta \<and> rd_rsub delta d0 = Inr start
        \<and> length xs = length ds
        \<and> (\<forall>i < length ds. \<exists>di t.
              relativedelta_kwargs u (of_nat i * inc) = Inr di \<and> rd_add di start = Inr t
              \<and> xs ! i = strftime t fmt)
        \<and> (ds \<noteq> [] \<longrightarrow> xs ! 0 = strftime start fmt)"
  then obtain delta start where
    delta: "relativedelta_kwargs u (of_int dec * inc) = Inr delta"
    and start: "rd_rsub delta d0 = Inr start"
    and len: "length xs = length ds"
    and lab: "\<forall>i < length ds. \<exists>di t.
              relativedelta_kwargs u (of_nat i * inc) = Inr di \<and> rd_add di start = Inr t
              \<and> xs ! i = strftime t fmt"
    by blast
  have "x_loop u fmt inc start (length ([] :: string list)) ds [] = Inr ([] @ xs)"
    by (rule x_loop_complete [OF len]) (use lab in simp)
  then show "generate_x_axis res u fmt inc = Inr xs"
    using assms delta start by (simp add: generate_x_axis_def getitem_def)
qed

lemma scenario_parse: "strptime_date ''01/03/2024'' = Inr (Date 2024 3 1)"
  by code_simp

lemma scenario_x_axis:
  "generate_x_axis scenario Days ''%d %b %Y'' 1
   = Inr [''28 Feb 2024'', ''29 Feb 2024'', ''01 Mar 2024'']"
  by code_simp

lemma scenario_y_axis: "generate_y_axis scenario = Inr [PyInt 0, PyInt 10, PyInt 20]"
  by (simp add: generate_y_axis_def scenario_def scenario_graphe_def scenario_data_def
      getitem_def list_insert_def)

theorem generate_x_axis_labels_witness:
  "\<exists>delta start.
      relativedelta_kwargs Days (of_int 2 * 1) = Inr delta
      \<and> rd_rsub delta (Date 2024 3 1) = Inr start
      \<and> length [''28 Feb 2024'', ''29 Feb 2024'', ''01 Mar 2024''] = length scenario_data
      \<and> (\<forall>i < length scenario_data. \<exists>di t.
            relativedelta_kwargs Days (of_nat i * 1) = Inr di \<and> rd_add di start = Inr t
            \<and> [''28 Feb 2024'', ''29 Feb 2024'', ''01 Mar 2024''] ! i = strftime t ''%d %b %Y'')
      \<and> (scenario_data \<noteq> []
           \<longrightarrow> [''28 Feb 2024'', ''29 Feb 2024'', ''01 Mar 2024''] ! 0 = strftime start ''%d %b %Y'')"
proof -
  have h1: "graphe scenario = Some scenario_graphe" by (simp add: scenario_def)
  have h2: "periode scenario_graphe = Some \<lparr>dateDebut = Some ''01/03/2024''\<rparr>"
    by (simp add: scenario_graphe_def)
  have h3: "dateDebut \<lparr>dateDebut = Some ''01/03/2024''\<rparr> = Some ''01/03/2024''" by simp
  have h5: "decalage scenario_graphe = Some 2" by (simp add: scenario_graphe_def)
  have h6: "data scenario_graphe = Some scenario_data" by (simp add: scenario_graphe_def)
  show ?thesis
    using generate_x_axis_labels [OF h1 h2 h3 scenario_parse h5 h6, of Days "''%d %b %Y''" 1
        "[''28 Feb 2024'', ''29 Feb 2024'', ''01 Mar 2024'']"] scenario_x_axis
    by blast
qed

section \<open>The exporters\<close>

lemma exporters_unfold:
  assumes "(u, fmt, inc, name, export) \<in> set exporters"
  shows "export float_repr basedir res fs =
     (case generate_x_axis res u fmt inc of
        Inl e \<Rightarrow> (Inl e, fs)
      | Inr xs \<Rightarrow>
          (case generate_y_axis res of
             Inl e \<Rightarrow> (Inl e, fs)
           | Inr ys \<Rightarrow>
               (case pair_records xs ys of
                  Inl e \<Rightarrow> (Inl e, fs)
                | Inr vals \<Rightarrow> write_values float_repr (basedir @ name) vals fs)))"
proof -
  have "(u = Hours \<and> fmt = ''%H:%M'' \<and> inc = 1 / 2 \<and> name = ''/export_hours_values.json''
          \<and> export = export_hours_values)
      \<or> (u = Days \<and> fmt = ''%d %b %Y'' \<and> inc = 1 \<and> name = ''/export_days_values.json''
          \<and> export = export_days_values)
      \<or> (u = Months \<and> fmt = ''%b'' \<and> inc = 1 \<and> name = ''/export_months_values.json''
          \<and> export = export_months_values)
      \<or> (u = Years \<and> fmt = ''%Y'' \<and> inc = 1 \<and> name = ''/export_years_values.json''
          \<and> export = export_years_values)"
    using assms unfolding exporters_def
    by (simp only: list.set insert_iff empty_iff prod.inject simp_thms)
  then show ?thesis
  proof (elim disjE conjE)
    assume "u = Hours" "fmt = ''%H:%M''" "inc = 1 / 2" "name = ''/export_hours_values.json''"
      "export = export_hours_values"
    then show ?thesis by (simp only: export_hours_values_def)
  next
    assume "u = Days" "fmt = ''%d %b %Y''" "inc = 1" "name = ''/export_days_values.json''"
      "export = export_days_values"
    then show ?thesis by (simp only: export_days_values_def)
  next
    assume "u = Months" "fmt = ''%b''" "inc = 1" "name = ''/export_months_values.json''"
      "export = export_months_values"
    then show ?thesis by (simp only: export_months_values_def)
  next
    assume "u = Years" "fmt = ''%Y''" "inc = 1" "name = ''/export_years_values.json''"
      "export = export_years_values"
    then show ?thesis by (simp only: export_years_values_def)
  qed
qed

text \<open>Writing chunks to a file that holds \<open>old\<close> leaves \<open>old\<close> followed by the chunks.\<close>

lemma foldl_fp_write:
  "contents fs path = Some old \<Longrightarrow>
   foldl (fp_write path) fs chunks = fs\<lparr>contents := (contents fs)(path \<mapsto> old @ concat chunks)\<rparr>"
proof (induction chunks arbitrary: fs old)
  case Nil
  then have "(contents fs)(path \<mapsto> old) = contents fs" by (simp add: fun_upd_idem)
  then show ?case by simp
next
  case (Cons c chunks)
  have step: "fp_write path fs c = fs\<lparr>contents := (contents fs)(path \<mapsto> old @ c)\<rparr>"
    using Cons.prems by (simp add: fp_write_def)
  have "foldl (fp_write path) (fs\<lparr>contents := (contents fs)(path \<mapsto> old @ c)\<rparr>) chunks
        = (fs\<lparr>contents := (contents fs)(path \<mapsto> old @ c)\<rparr>)
            \<lparr>contents := (contents (fs\<lparr>contents := (contents fs)(path \<mapsto> old @ c)\<rparr>))
                            (path \<mapsto> (old @ c) @ concat chunks)\<rparr>"
    by (rule Cons.IH) simp
  also have "\<dots> = fs\<lparr>contents := (contents fs)(path \<mapsto> old @ concat (c # chunks))\<rparr>"
    by simp
  finally show ?case by (simp only: foldl.simps step)
qed

lemma write_values_eq:
  "write_values float_repr path vals fs =
     (if denied fs path then (Inl OSError, fs)
      else (Inr (), fs\<lparr>contents := (contents fs)(path \<mapsto> concat (iterencode float_repr vals))\<rparr>))"
proof (cases "denied fs path")
  case True
  then show ?thesis by (simp add: write_values_def open_w_def)
next
  case False
  have "foldl (fp_write path) (fs\<lparr>contents := (contents fs)(path \<mapsto> [])\<rparr>)
          (iterencode float_repr vals)
        = (fs\<lparr>contents := (contents fs)(path \<mapsto> [])\<rparr>)
            \<lparr>contents := (contents (fs\<lparr>contents := (contents fs)(path \<mapsto> [])\<rparr>))
                            (path \<mapsto> [] @ concat (iterencode float_repr vals))\<rparr>"
    by (rule foldl_fp_write) simp
  then show ?thesis using False by (simp add: write_values_def open_w_def json_dump_def)
qed

text \<open>What a successful export has computed and written.\<close>

lemma exporter_success:
  assumes tab: "(u, fmt, inc, name, export) \<in> set exporters"
    and ok: "fst (export float_repr basedir res fs) = Inr ()"
  shows "\<exists>xs ys recs.
           generate_x_axis res u fmt inc = Inr xs \<and> generate_y_axis res = Inr ys
           \<and> pair_records xs ys = Inr recs \<and> \<not> denied fs (basedir @ name)
           \<and> export float_repr basedir res fs
               = (Inr (), fs\<lparr>contents := (contents fs)(basedir @ name \<mapsto>
                                  concat (iterencode float_repr recs))\<rparr>)"
  using ok unfolding exporters_unfold [OF tab] write_values_eq
  by (auto split: sum.splits if_splits)

lemma axes_aligned:
  assumes gx: "generate_x_axis res u fmt inc = Inr xs" and gy: "generate_y_axis res = Inr ys"
  shows "\<exists>g ds. graphe res = Some g \<and> data g = Some ds \<and> length xs = length ds
                \<and> length ys = length ds"
proof -
  from gx obtain g start ds where g: "graphe res = Some g" and ds: "data g = Some ds"
    and loop: "x_loop u fmt inc start 0 ds [] = Inr xs"
    by (auto simp: generate_x_axis_def getitem_def split: sum.splits option.splits)
  from x_loop_spec [of u fmt inc start "[]" ds xs] loop have "length xs = length ds" by simp
  moreover have "length ys = length ds" by (rule generate_y_axis_length [OF gy g ds])
  ultimately show ?thesis using g ds by blast
qed

text \<open>
  C4. Whenever one of the four exporters succeeds on a response, the time labels, the
  cleaned values and the paired records it has built all have the length of
  \<^verbatim>\<open>graphe.data\<close>, the record at each index pairs the label and the value at that index,
  and these records are what the output file holds.
\<close>

theorem exporter_lengths:
  assumes "(u, fmt, inc, name, export) \<in> set exporters"
    and "fst (export float_repr basedir res fs) = Inr ()"
  shows "\<exists>g ds xs ys recs.
           graphe res = Some g \<and> data g = Some ds
           \<and> generate_x_axis res u fmt inc = Inr xs \<and> generate_y_axis res = Inr ys
           \<and> pair_records xs ys = Inr recs
           \<and> length ys = length ds \<and> length xs = length ds \<and> length recs = length ds
           \<and> (\<forall>i < length ds. recs ! i = \<lparr>time = xs ! i, conso = ys ! i\<rparr>)
           \<and> contents (snd (export float_repr basedir res fs)) (basedir @ name)
               = Some (concat (iterencode float_repr recs))"
proof -
  from exporter_success [OF assms] obtain xs ys recs where
    gx: "generate_x_axis res u fmt inc = Inr xs" and gy: "generate_y_axis res = Inr ys"
    and pr: "pair_records xs ys = Inr recs"
    and ex: "export float_repr basedir res fs
               = (Inr (), fs\<lparr>contents := (contents fs)(basedir @ name \<mapsto>
                                  concat (iterencode float_repr recs))\<rparr>)"
    by blast
  from axes_aligned [OF gx gy] obtain g ds where g: "graphe res = Some g"
    and ds: "data g = Some ds" and lx: "length xs = length ds" and ly: "length ys = length ds"
    by blast
  have "pair_records xs ys = Inr (map (\<lambda>(t, c). \<lparr>time = t, conso = c\<rparr>) (zip xs ys))"
    by (rule pair_records_le) (simp add: lx ly)
  with pr have recs: "recs = map (\<lambda>(t, c). \<lparr>time = t, conso = c\<rparr>) (zip xs ys)" by simp
  have lr: "length recs = length ds" by (simp add: recs lx ly)
  have nth: "\<forall>i < length ds. recs ! i = \<lparr>time = xs ! i, conso = ys ! i\<rparr>"
    by (simp add: recs lx ly)
  have "contents (snd (export float_repr basedir res fs)) (basedir @ name)
               = Some (concat (iterencode float_repr recs))"
    by (simp add: ex)
  with g ds gx gy pr lx ly lr nth show ?thesis by blast
qed

lemma scenario_pairs:
  "pair_records [''28 Feb 2024'', ''29 Feb 2024'', ''01 Mar 2024'']
         [PyInt 0, PyInt 10, PyInt 20]
       = Inr [\<lparr>time = ''28 Feb 2024'', conso = PyInt 0\<rparr>,
              \<lparr>time = ''29 Feb 2024'', conso = PyInt 10\<rparr>,
              \<lparr>time = ''01 Mar 2024'', conso = PyInt 20\<rparr>]"
  using pair_records_le [of "[''28 Feb 2024'', ''29 Feb 2024'', ''01 Mar 2024'']"
      "[PyInt 0, PyInt 10, PyInt 20]"]
  by simp

lemma scenario_export:
  "export_days_values float_repr basedir scenario fs
       = write_values float_repr (basedir @ ''/export_days_values.json'')
           [\<lparr>time = ''28 Feb 2024'', conso = PyInt 0\<rparr>,
            \<lparr>time = ''29 Feb 2024'', conso = PyInt 10\<rparr>,
            \<lparr>time = ''01 Mar 2024'', conso = PyInt 20\<rparr>] fs"
  by (simp add: export_days_values_def scenario_x_axis scenario_y_axis scenario_pairs)

lemma scenario_days_export:
  "fst (export_days_values no_floats ''/srv'' scenario empty_fs) = Inr ()"
  by (simp add: scenario_export write_values_eq empty_fs_def)

theorem exporter_lengths_witness:
  "\<exists>g ds xs ys recs.
     graphe scenario = Some g \<and> data g = Some ds
     \<and> generate_x_axis scenario Days ''%d %b %Y'' 1 = Inr xs \<and> generate_y_axis scenario = Inr ys
     \<and> pair_records xs ys = Inr recs
     \<and> length ys = length ds \<and> length xs = length ds \<and> length recs = length ds
     \<and> (\<forall>i < length ds. recs ! i = \<lparr>time = xs ! i, conso = ys ! i\<rparr>)
     \<and> contents (snd (export_days_values no_floats ''/srv'' scenario empty_fs))
         (''/srv'' @ ''/export_days_values.json'')
       = Some (concat (iterencode no_floats recs))"
proof -
  have tab: "(Days, ''%d %b %Y'', 1, ''/export_days_values.json'', export_days_values)
             \<in> set exporters"
    by (simp add: exporters_def)
  show ?thesis by (rule exporter_lengths [OF tab scenario_days_export])
qed

text \<open>
  C9. An exporter is a function of the response: when a run succeeds, a second run on the
  file system it left succeeds again and leaves that file system as it is; the content of
  the output file after a successful run is the same whatever the file system held before,
  so nothing is appended to prior content; no other file is touched.
\<close>

theorem exporter_overwrites:
  assumes "(u, fmt, inc, name, export) \<in> set exporters"
    and "export float_repr basedir res fs = (Inr (), fs1)"
  shows "export float_repr basedir res fs1 = (Inr (), fs1)
         \<and> (\<forall>fs'. fst (export float_repr basedir res fs') = Inr () \<longrightarrow>
               contents (snd (export float_repr basedir res fs')) (basedir @ name)
                 = contents fs1 (basedir @ name))
         \<and> (\<forall>p. p \<noteq> basedir @ name \<longrightarrow> contents fs1 p = contents fs p)"
proof -
  have ok: "fst (export float_repr basedir res fs) = Inr ()" using assms(2) by simp
  from exporter_success [OF assms(1) ok] assms(2) obtain xs ys recs where
    gx: "generate_x_axis res u fmt inc = Inr xs" and gy: "generate_y_axis res = Inr ys"
    and pr: "pair_records xs ys = Inr recs" and nd: "\<not> denied fs (basedir @ name)"
    and fs1: "fs1 = fs\<lparr>contents := (contents fs)(basedir @ name \<mapsto>
                                  concat (iterencode float_repr recs))\<rparr>"
    by auto
  have again: "export float_repr basedir res fs1 = (Inr (), fs1)"
    unfolding exporters_unfold [OF assms(1)] write_values_eq
    using nd by (simp add: gx gy pr fs1)
  have same: "contents (snd (export float_repr basedir res fs')) (basedir @ name)
                 = contents fs1 (basedir @ name)"
    if "fst (export float_repr basedir res fs') = Inr ()" for fs'
    using that unfolding exporters_unfold [OF assms(1)] write_values_eq
    by (simp add: gx gy pr fs1 split: if_splits)
  have other: "contents fs1 p = contents fs p" if "p \<noteq> basedir @ name" for p
    using that by (simp add: fs1)
  from again same other show ?thesis by blast
qed

theorem exporter_overwrites_witness:
  "export_days_values no_floats ''/srv'' scenario
     (snd (export_days_values no_floats ''/srv'' scenario empty_fs))
   = (Inr (), snd (export_days_values no_floats ''/srv'' scenario empty_fs))"
proof -
  have tab: "(Days, ''%d %b %Y'', 1, ''/export_days_values.json'', export_days_values)
             \<in> set exporters"
    by (simp add: exporters_def)
  have run: "export_days_values no_floats ''/srv'' scenario empty_fs
             = (Inr (), snd (export_days_values no_floats ''/srv'' scenario empty_fs))"
    using scenario_days_export by (simp add: prod_eq_iff)
  from exporter_overwrites [OF tab run] show ?thesis by blast
qed

text \<open>
  C10, as stated, fails: with no data points, a start date that parses and an integer
  offset, the exporter still fails when the offset leads out of the calendar. 800000 days
  before 1 March 2024 lies before year 1, and \<^verbatim>\<open>date + timedelta\<close> raises
  \<^verbatim>\<open>OverflowError\<close>.
\<close>

theorem exporter_empty_data_counterexample:
  "data (the (graphe far_scenario)) = Some []
   \<and> decalage (the (graphe far_scenario)) = Some 800000
   \<and> strptime_date ''01/03/2024'' = Inr (Date 2024 3 1)
   \<and> fst (export_days_values no_floats ''/srv'' far_scenario empty_fs) = Inl OverflowError"
  by code_simp

text \<open>
  C10, amended. Take a response with no data points. When its \<^verbatim>\<open>dateDebut\<close> parses, its
  \<^verbatim>\<open>decalage\<close> is an integer, the start instant \<open>parse(dateDebut) - decalage * inc\<close> exists
  in the calendar (years 1 to 9999) and the output file can be opened for writing, each of
  the four exporters succeeds and the file holds exactly \<^verbatim>\<open>[]\<close>. When \<^verbatim>\<open>dateDebut\<close> does
  not parse, each exporter fails with the parse error and writes nothing.
\<close>

theorem exporter_empty_data:
  assumes "(u, fmt, inc, name, export) \<in> set exporters"
    and "graphe res = Some g" and "periode g = Some p" and "dateDebut p = Some s"
    and "decalage g = Some dec" and "data g = Some []"
  shows "(\<forall>d0 delta start.
            strptime_date s = Inr d0 \<and> relativedelta_kwargs u (of_int dec * inc) = Inr delta
            \<and> rd_rsub delta d0 = Inr start \<and> \<not> denied fs (basedir @ name) \<longrightarrow>
            export float_repr basedir res fs
              = (Inr (), fs\<lparr>contents := (contents fs)(basedir @ name \<mapsto> ''[]'')\<rparr>))
         \<and> (\<forall>e. strptime_date s = Inl e \<longrightarrow> export float_repr basedir res fs = (Inl e, fs))"
proof (intro conjI allI impI)
  fix d0 delta start
  assume h: "strptime_date s = Inr d0 \<and> relativedelta_kwargs u (of_int dec * inc) = Inr delta
            \<and> rd_rsub delta d0 = Inr start \<and> \<not> denied fs (basedir @ name)"
  have gx: "generate_x_axis res u fmt inc = Inr []"
    using assms(2-6) h by (simp add: generate_x_axis_def getitem_def)
  have gy: "generate_y_axis res = Inr []"
    using assms(2,6) by (simp add: generate_y_axis_def getitem_def)
  have pr: "pair_records [] [] = Inr []" by (simp add: pair_records_def)
  show "export float_repr basedir res fs
              = (Inr (), fs\<lparr>contents := (contents fs)(basedir @ name \<mapsto> ''[]'')\<rparr>)"
    unfolding exporters_unfold [OF assms(1)] write_values_eq
    using h by (simp add: gx gy pr iterencode_def)
next
  fix e
  assume "strptime_date s = Inl e"
  then have "generate_x_axis res u fmt inc = Inl e"
    using assms(2-4) by (simp add: generate_x_axis_def getitem_def)
  then show "export float_repr basedir res fs = (Inl e, fs)"
    unfolding exporters_unfold [OF assms(1)] by simp
qed

lemma malformed_parse: "strptime_date ''2024-03-01'' = Inl ValueError"
  by code_simp

lemma scenario_start:
  "relativedelta_kwargs Days (of_int 2 * 1) = Inr \<lparr>years = 0, months = 0, days = 2, hours = 0\<rparr>
   \<and> rd_rsub \<lparr>years = 0, months = 0, days = 2, hours = 0\<rparr> (Date 2024 3 1) = Inr (Date 2024 2 28)"
  by code_simp

theorem exporter_empty_data_witness:
  "export_days_values no_floats ''/srv'' empty_scenario empty_fs
     = (Inr (), empty_fs\<lparr>contents := (contents empty_fs)
                                        (''/srv'' @ ''/export_days_values.json'' \<mapsto> ''[]'')\<rparr>)
   \<and> export_days_values no_floats ''/srv'' malformed_scenario empty_fs = (Inl ValueError, empty_fs)"
proof -
  have tab: "(Days, ''%d %b %Y'', 1, ''/export_days_values.json'', export_days_values)
             \<in> set exporters"
    by (simp add: exporters_def)
  have a1: "graphe empty_scenario = Some (scenario_graphe\<lparr>data := Some []\<rparr>)"
    by (simp add: empty_scenario_def)
  have a2: "periode (scenario_graphe\<lparr>data := Some []\<rparr>) = Some \<lparr>dateDebut = Some ''01/03/2024''\<rparr>"
    by (simp add: scenario_graphe_def)
  have a3: "dateDebut \<lparr>dateDebut = Some ''01/03/2024''\<rparr> = Some ''01/03/2024''" by simp
  have a4: "decalage (scenario_graphe\<lparr>data := Some []\<rparr>) = Some 2"
    by (simp add: scenario_graphe_def)
  have a5: "data (scenario_graphe\<lparr>data := Some []\<rparr>) = Some []" by simp
  have nd: "\<not> denied empty_fs (''/srv'' @ ''/export_days_values.json'')"
    by (simp add: empty_fs_def)
  from exporter_empty_data [OF tab a1 a2 a3 a4 a5, of empty_fs "''/srv''" no_floats]
    scenario_parse scenario_start nd
  have one: "export_days_values no_floats ''/srv'' empty_scenario empty_fs
     = (Inr (), empty_fs\<lparr>contents := (contents empty_fs)
                                        (''/srv'' @ ''/export_days_values.json'' \<mapsto> ''[]'')\<rparr>)"
    by blast
  have b1: "graphe malformed_scenario
            = Some (scenario_graphe\<lparr>data := Some [],
                                     periode := Some \<lparr>dateDebut = Some ''2024-03-01''\<rparr>\<rparr>)"
    by (simp add: malformed_scenario_def)
  have b2: "periode (scenario_graphe\<lparr>data := Some [],
                                     periode := Some \<lparr>dateDebut = Some ''2024-03-01''\<rparr>\<rparr>)
            = Some \<lparr>dateDebut = Some ''2024-03-01''\<rparr>"
    by simp
  have b3: "dateDebut \<lparr>dateDebut = Some ''2024-03-01''\<rparr> = Some ''2024-03-01''" by simp
  have b4: "decalage (scenario_graphe\<lparr>data := Some [],
                                     periode := Some \<lparr>dateDebut = Some ''2024-03-01''\<rparr>\<rparr>)
            = Some 2"
    by (simp add: scenario_graphe_def)
  have b5: "data (scenario_graphe\<lparr>data := Some [],
                                     periode := Some \<lparr>dateDebut = Some ''2024-03-01''\<rparr>\<rparr>)
            = Some []"
    by simp
  from exporter_empty_data [OF tab b1 b2 b3 b4 b5, of empty_fs "''/srv''" no_floats]
    malformed_parse
  have two: "export_days_values no_floats ''/srv'' malformed_scenario empty_fs
             = (Inl ValueError, empty_fs)"
    by blast
  from one two show ?thesis by simp
qed

section \<open>The end-to-end scenario\<close>

text \<open>
  C2, as stated, fails. Two days before 1 March 2024 is 28 February 2024 (February 2024 has
  29 days), so the labels start at 28 Feb 2024, not at 27 Feb 2024: the time axis is not the
  claimed one, and the file that the day exporter writes is not the claimed document.
\<close>

theorem scenario_claimed_records_counterexample:
  "generate_x_axis scenario Days ''%d %b %Y'' 1
     \<noteq> Inr [''27 Feb 2024'', ''28 Feb 2024'', ''29 Feb 2024'']
   \<and> contents (snd (export_days_values no_floats ''/srv'' scenario empty_fs))
         ''/srv/export_days_values.json''
     \<noteq> Some (concat (iterencode no_floats
                [\<lparr>time = ''27 Feb 2024'', conso = PyInt 0\<rparr>,
                 \<lparr>time = ''28 Feb 2024'', conso = PyInt 10\<rparr>,
                 \<lparr>time = ''29 Feb 2024'', conso = PyInt 20\<rparr>]))"
proof -
  have x: "generate_x_axis scenario Days ''%d %b %Y'' 1
     \<noteq> Inr [''27 Feb 2024'', ''28 Feb 2024'', ''29 Feb 2024'']"
    by (simp add: scenario_x_axis)
  have w: "contents (snd (export_days_values no_floats ''/srv'' scenario empty_fs))
             ''/srv/export_days_values.json''
           = Some (concat (iterencode no_floats
                [\<lparr>time = ''28 Feb 2024'', conso = PyInt 0\<rparr>,
                 \<lparr>time = ''29 Feb 2024'', conso = PyInt 10\<rparr>,
                 \<lparr>time = ''01 Mar 2024'', conso = PyInt 20\<rparr>]))"
    by (simp add: scenario_export write_values_eq empty_fs_def)
  have d: "concat (iterencode no_floats
                [\<lparr>time = ''28 Feb 2024'', conso = PyInt 0\<rparr>,
                 \<lparr>time = ''29 Feb 2024'', conso = PyInt 10\<rparr>,
                 \<lparr>time = ''01 Mar 2024'', conso = PyInt 20\<rparr>])
           \<noteq> concat (iterencode no_floats
                [\<lparr>time = ''27 Feb 2024'', conso = PyInt 0\<rparr>,
                 \<lparr>time = ''28 Feb 2024'', conso = PyInt 10\<rparr>,
                 \<lparr>time = ''29 Feb 2024'', conso = PyInt 20\<rparr>])"
    by code_simp
  from x w d show ?thesis by simp
qed

text \<open>
  C2, amended. For \<^verbatim>\<open>dateDebut = "01/03/2024"\<close>, \<^verbatim>\<open>decalage = 2\<close> and the values
  \<open>-5\<close>, \<open>10\<close>, \<open>20\<close>, the day exporter builds the labels 28 Feb 2024, 29 Feb 2024 and
  01 Mar 2024 and the values 0, 10 and 20, pairs them in this order and writes exactly these
  three records.
\<close>

theorem scenario_days_records:
  "generate_x_axis scenario Days ''%d %b %Y'' 1
     = Inr [''28 Feb 2024'', ''29 Feb 2024'', ''01 Mar 2024'']
   \<and> generate_y_axis scenario = Inr [PyInt 0, PyInt 10, PyInt 20]
   \<and> pair_records [''28 Feb 2024'', ''29 Feb 2024'', ''01 Mar 2024'']
         [PyInt 0, PyInt 10, PyInt 20]
       = Inr [\<lparr>time = ''28 Feb 2024'', conso = PyInt 0\<rparr>,
              \<lparr>time = ''29 Feb 2024'', conso = PyInt 10\<rparr>,
              \<lparr>time = ''01 Mar 2024'', conso = PyInt 20\<rparr>]
   \<and> export_days_values float_repr basedir scenario fs
       = write_values float_repr (basedir @ ''/export_days_values.json'')
           [\<lparr>time = ''28 Feb 2024'', conso = PyInt 0\<rparr>,
            \<lparr>time = ''29 Feb 2024'', conso = PyInt 10\<rparr>,
            \<lparr>time = ''01 Mar 2024'', conso = PyInt 20\<rparr>] fs"
  by (simp add: scenario_x_axis scenario_y_axis scenario_pairs scenario_export)

end
